theory Spec2Isabelle
  imports Complex_Main
begin

section \<open>JavaScript values used by the routes\<close>

text \<open>
  A JavaScript \<open>number\<close> is \<open>NaN\<close> or a finite double, which is modelled by the
  real number it denotes. The infinities are outside the model. The operations on
  doubles round, so they are not the operations on reals: they are passed in (the
  record \<open>arith\<close> below).
\<close>

datatype number = NaN | Num real

text \<open>Truthiness of a \<open>number | null\<close>: \<open>null\<close>, \<open>0\<close> and \<open>NaN\<close> are falsy.\<close>

fun truthy :: "number option \<Rightarrow> bool" where
  "truthy None = False"
| "truthy (Some NaN) = False"
| "truthy (Some (Num r)) = (r \<noteq> 0)"

text \<open>A \<open>number | null\<close> as an operand of arithmetic: \<open>null\<close> converts to 0.\<close>

fun numval :: "number option \<Rightarrow> number" where
  "numval None = Num 0"
| "numval (Some n) = n"

text \<open>\<open>x <= y\<close> and \<open>x == y\<close> on numbers: every comparison with \<open>NaN\<close> is false.\<close>

fun le_number :: "number \<Rightarrow> number \<Rightarrow> bool" where
  "le_number (Num a) (Num b) = (a \<le> b)"
| "le_number _ _ = False"

fun eq_number :: "number \<Rightarrow> number \<Rightarrow> bool" where
  "eq_number (Num a) (Num b) = (a = b)"
| "eq_number _ _ = False"

text \<open>
  The idiom \<open>x ? parseFloat(x) : null\<close> on a value that is a string, \<open>null\<close> or
  \<open>undefined\<close>: the empty string is falsy as well. \<open>parseFloat\<close> is a builtin of the
  language and is passed in.
\<close>

fun parseIfTruthy :: "(string \<Rightarrow> number) \<Rightarrow> string option \<Rightarrow> number option" where
  "parseIfTruthy pf None = None"
| "parseIfTruthy pf (Some s) = (if s = [] then None else Some (pf s))"

section \<open>Double arithmetic\<close>

text \<open>
  The operators \<open>+\<close>, \<open>-\<close>, \<open>*\<close>, \<open>/\<close> on doubles, the constant \<open>Math.PI\<close> and the
  functions \<open>Math.sin\<close>, \<open>Math.cos\<close>, \<open>Math.sqrt\<close> and \<open>Math.atan2\<close>. Each returns a
  double, \<open>NaN\<close> included: \<open>Math.sqrt\<close> of a negative number is \<open>NaN\<close>, and an
  operation with a \<open>NaN\<close> operand is \<open>NaN\<close>.
\<close>

record arith =
  fadd :: "number \<Rightarrow> number \<Rightarrow> number"
  fsub :: "number \<Rightarrow> number \<Rightarrow> number"
  fmul :: "number \<Rightarrow> number \<Rightarrow> number"
  fdiv :: "number \<Rightarrow> number \<Rightarrow> number"
  mathPI :: number
  mathSin :: "number \<Rightarrow> number"
  mathCos :: "number \<Rightarrow> number"
  mathSqrt :: "number \<Rightarrow> number"
  mathAtan2 :: "number \<Rightarrow> number \<Rightarrow> number"

section \<open>Distance Calculator (routes/sellers.ts, calculateDistance)\<close>

text \<open>
  The constants \<open>dLat\<close>, \<open>dLon\<close> and \<open>a\<close> of \<open>calculateDistance\<close>, with the
  operators in the order JavaScript applies them: \<open>x * y / z\<close> is \<open>(x * y) / z\<close>, and
  \<open>p * q + r * s * t * u\<close> is \<open>(p * q) + (((r * s) * t) * u)\<close>.
\<close>

definition haversineTerm :: "arith \<Rightarrow> number \<Rightarrow> number \<Rightarrow> number \<Rightarrow> number \<Rightarrow> number" where
  "haversineTerm M lat1 lon1 lat2 lon2 =
     (let dLat = fdiv M (fmul M (fsub M lat2 lat1) (mathPI M)) (Num 180);
          dLon = fdiv M (fmul M (fsub M lon2 lon1) (mathPI M)) (Num 180)
      in fadd M
           (fmul M (mathSin M (fdiv M dLat (Num 2))) (mathSin M (fdiv M dLat (Num 2))))
           (fmul M
              (fmul M
                 (fmul M (mathCos M (fdiv M (fmul M lat1 (mathPI M)) (Num 180)))
                         (mathCos M (fdiv M (fmul M lat2 (mathPI M)) (Num 180))))
                 (mathSin M (fdiv M dLon (Num 2))))
              (mathSin M (fdiv M dLon (Num 2)))))"

definition calculateDistance :: "arith \<Rightarrow> number \<Rightarrow> number \<Rightarrow> number \<Rightarrow> number \<Rightarrow> number" where
  "calculateDistance M lat1 lon1 lat2 lon2 =
     (let R = Num 3959;
          a = haversineTerm M lat1 lon1 lat2 lon2;
          c = fmul M (Num 2) (mathAtan2 M (mathSqrt M a) (mathSqrt M (fsub M (Num 1) a)))
      in fmul M R c)"

section \<open>Staleness check (routes/sellers.ts, GET /active)\<close>

text \<open>Times are milliseconds since the epoch, as \<open>Date.now()\<close> counts them.\<close>

definition STALE_THRESHOLD_MINUTES :: int where
  "STALE_THRESHOLD_MINUTES = 15"

definition staleThreshold :: "int \<Rightarrow> int" where
  "staleThreshold now = now - STALE_THRESHOLD_MINUTES * 60 * 1000"

text \<open>
  The SQL condition \<open>gte(column, value)\<close> on a nullable column: a \<open>NULL\<close> compares
  to unknown, and the \<open>where\<close> clause keeps only rows whose condition is true.
\<close>

fun gte :: "int option \<Rightarrow> int \<Rightarrow> bool" where
  "gte None v = False"
| "gte (Some t) v = (v \<le> t)"

section \<open>Tables (db/schema.ts)\<close>

text \<open>
  A row of \<open>sellers\<close>. The \<open>decimal\<close> columns \<open>latitude\<close> and \<open>longitude\<close> are read
  as strings by the driver; a nullable column is an option. Timestamps are milliseconds.
\<close>

record seller =
  s_id :: int
  s_userId :: int
  s_businessName :: string
  s_ownerName :: string
  s_phone :: string
  s_description :: "string option"
  s_isActive :: bool
  s_latitude :: "string option"
  s_longitude :: "string option"
  s_lastLocationUpdate :: "int option"
  s_createdAt :: int
  s_updatedAt :: int

record offering =
  o_id :: int
  o_sellerId :: int
  o_name :: string

record db =
  sellers :: "seller list"
  offerings :: "offering list"

text \<open>A failed request: the HTTP status and the \<open>error\<close> text of the JSON body.\<close>

datatype http_error = HttpError nat string

section \<open>Discovery query (routes/sellers.ts, GET /active)\<close>

record query =
  q_lat :: "string option"
  q_lng :: "string option"
  q_radius :: "string option"

record seller_info =
  i_businessName :: string
  i_ownerName :: string
  i_phone :: string
  i_description :: "string option"
  i_offerings :: "string list"

record vendor =
  v_id :: int
  v_sellerId :: int
  v_latitude :: "number option"
  v_longitude :: "number option"
  v_timestamp :: "int option"
  v_seller :: seller_info
  v_distance :: number

text \<open>The body of the \<open>activeSellers.map\<close> callback: one result entry per selected row.\<close>

definition vendorEntry ::
  "arith \<Rightarrow> (string \<Rightarrow> number) \<Rightarrow> number option \<Rightarrow> number option \<Rightarrow> offering list \<Rightarrow> seller \<Rightarrow> vendor" where
  "vendorEntry M pf userLat userLng offs seller =
     (let sellerOfferings = filter (\<lambda>off. o_sellerId off = s_id seller) offs;
          sellerLat = parseIfTruthy pf (s_latitude seller);
          sellerLng = parseIfTruthy pf (s_longitude seller);
          distance =
            (if truthy userLat \<and> truthy userLng \<and> truthy sellerLat \<and> truthy sellerLng
             then calculateDistance M (numval userLat) (numval userLng)
                    (numval sellerLat) (numval sellerLng)
             else Num 0)
      in \<lparr> v_id = s_id seller,
           v_sellerId = s_id seller,
           v_latitude = sellerLat,
           v_longitude = sellerLng,
           v_timestamp = s_lastLocationUpdate seller,
           v_seller = \<lparr> i_businessName = s_businessName seller,
                        i_ownerName = s_ownerName seller,
                        i_phone = s_phone seller,
                        i_description = s_description seller,
                        i_offerings = map o_name sellerOfferings \<rparr>,
           v_distance = distance \<rparr>)"

text \<open>
  The sort key of the comparator \<open>(a, b) => a.distance - b.distance\<close>. The difference
  of two doubles has the sign of their exact difference, so on distances that are
  numbers the comparator orders by the real value. A \<open>NaN\<close> distance never reaches the
  sort: the filter \<open>v.distance <= radiusMiles\<close> before it drops the entry.
\<close>

definition byDistance :: "vendor \<Rightarrow> real" where
  "byDistance v = (case v_distance v of NaN \<Rightarrow> 0 | Num r \<Rightarrow> r)"

text \<open>
  The handler. \<open>Array.prototype.sort\<close> is stable; it is the stable sort \<open>sort_key\<close>
  on the key above. The \<open>catch\<close> branch answers a failure of the database connection,
  which is not modelled, so the result is always the list.
\<close>

definition getActive ::
  "arith \<Rightarrow> (string \<Rightarrow> number) \<Rightarrow> int \<Rightarrow> query \<Rightarrow> db \<Rightarrow> http_error + vendor list" where
  "getActive M pf now q d =
     (let userLat = parseIfTruthy pf (q_lat q);
          userLng = parseIfTruthy pf (q_lng q);
          radiusMiles = pf (case q_radius q of None \<Rightarrow> ''50'' | Some r \<Rightarrow> r);
          threshold = staleThreshold now;
          activeSellers =
            filter (\<lambda>s. s_isActive s = True \<and> gte (s_lastLocationUpdate s) threshold)
              (sellers d);
          vendorsWithOfferings =
            map (vendorEntry M pf userLat userLng (offerings d)) activeSellers;
          filteredVendors =
            filter (\<lambda>v. truthy (v_latitude v) \<and> truthy (v_longitude v)) vendorsWithOfferings
      in Inr (if truthy userLat \<and> truthy userLng
              then sort_key byDistance
                     (filter (\<lambda>v. le_number (v_distance v) radiusMiles) filteredVendors)
              else filteredVendors))"

section \<open>Authentication middleware (middleware/auth.ts)\<close>

text \<open>
  The builtins and libraries the protected routes call: \<open>parseFloat\<close>,
  \<open>Number.prototype.toString\<close>, \<open>jwt.verify\<close> with the process's secret (\<open>None\<close> when
  it throws), and the input function of the \<open>decimal(10, 7)\<close> column type (\<open>None\<close> when
  the database rejects the text, otherwise the text it stores).
\<close>

record platform =
  parseFloat :: "string \<Rightarrow> number"
  numberToString :: "real \<Rightarrow> string"
  jwtVerify :: "string \<Rightarrow> (int \<times> string) option"
  numericIn :: "string \<Rightarrow> string option"

definition verifyToken :: "platform \<Rightarrow> string \<Rightarrow> (int \<times> string) option" where
  "verifyToken P token = jwtVerify P token"

text \<open>On success the middleware sets \<open>req.userId\<close> and \<open>req.userType\<close>.\<close>

definition authMiddleware :: "platform \<Rightarrow> string option \<Rightarrow> http_error + (int \<times> string)" where
  "authMiddleware P authHeader =
     (case authHeader of
        None \<Rightarrow> Inl (HttpError 401 ''No token provided'')
      | Some h \<Rightarrow>
          if h = [] \<or> take 7 h \<noteq> ''Bearer '' then Inl (HttpError 401 ''No token provided'')
          else (case verifyToken P (drop 7 h) of
                  None \<Rightarrow> Inl (HttpError 401 ''Invalid token'')
                | Some decoded \<Rightarrow> Inr decoded))"

definition sellerOnly :: "string \<Rightarrow> http_error + unit" where
  "sellerOnly userType =
     (if userType \<noteq> ''seller'' then Inl (HttpError 403 ''Seller access required'')
      else Inr ())"

definition adminOnly :: "string \<Rightarrow> http_error + unit" where
  "adminOnly userType =
     (if userType \<noteq> ''admin'' then Inl (HttpError 403 ''Admin access required'')
      else Inr ())"

section \<open>Location update (routes/sellers.ts, PATCH /location)\<close>

text \<open>
  A field of the JSON body. \<open>latitude\<close> and \<open>longitude\<close> may hold any JSON scalar;
  \<open>isActive\<close> is absent or a boolean, as the boolean column requires. \<open>None\<close> is
  \<open>undefined\<close>.
\<close>

datatype jsval = JNull | JBool bool | JNum real | JStr string

record location_body =
  b_latitude :: "jsval option"
  b_longitude :: "jsval option"
  b_isActive :: "bool option"

text \<open>\<open>v.toString()\<close>: calling a method of \<open>null\<close> throws a TypeError (\<open>None\<close>).\<close>

fun toString :: "platform \<Rightarrow> jsval \<Rightarrow> string option" where
  "toString P JNull = None"
| "toString P (JBool b) = Some (if b then ''true'' else ''false'')"
| "toString P (JNum r) = Some (numberToString P r)"
| "toString P (JStr s) = Some s"

text \<open>
  The object \<open>updateData\<close>: a key is either absent (\<open>Keep\<close>: the column is left as
  it is) or assigned a value, which for a nullable column may be \<open>null\<close>.
\<close>

datatype 'a assign = Keep | Assign 'a

fun assignTo :: "'a assign \<Rightarrow> 'a \<Rightarrow> 'a" where
  "assignTo Keep old = old"
| "assignTo (Assign v) old = v"

record updateData =
  u_updatedAt :: int
  u_latitude :: "string option assign"
  u_longitude :: "string option assign"
  u_lastLocationUpdate :: "int option assign"
  u_isActive :: "bool assign"

text \<open>
  Lines 191 to 206 of the handler: the coordinates with their timestamp when both are
  given, then the active flag, which clears all three when it is false. \<open>None\<close> when
  \<open>toString\<close> throws.
\<close>

definition locationUpdateData :: "platform \<Rightarrow> int \<Rightarrow> location_body \<Rightarrow> updateData option" where
  "locationUpdateData P now body =
     (let updateData0 = \<lparr> u_updatedAt = now, u_latitude = Keep, u_longitude = Keep,
                           u_lastLocationUpdate = Keep, u_isActive = Keep \<rparr>;
          withLocation =
            (case b_latitude body of
               None \<Rightarrow> Some updateData0
             | Some latitude \<Rightarrow>
                 (case b_longitude body of
                    None \<Rightarrow> Some updateData0
                  | Some longitude \<Rightarrow>
                      (case toString P latitude of
                         None \<Rightarrow> None
                       | Some la \<Rightarrow>
                           (case toString P longitude of
                              None \<Rightarrow> None
                            | Some lo \<Rightarrow>
                                Some (updateData0
                                  \<lparr> u_latitude := Assign (Some la),
                                    u_longitude := Assign (Some lo),
                                    u_lastLocationUpdate := Assign (Some now) \<rparr>)))))
      in case withLocation of
           None \<Rightarrow> None
         | Some updateData1 \<Rightarrow>
             (case b_isActive body of
                None \<Rightarrow> Some updateData1
              | Some isActive \<Rightarrow>
                  (let updateData2 = updateData1 \<lparr> u_isActive := Assign isActive \<rparr>
                   in if \<not> isActive
                      then Some (updateData2
                             \<lparr> u_latitude := Assign None,
                               u_longitude := Assign None,
                               u_lastLocationUpdate := Assign None \<rparr>)
                      else Some updateData2)))"

text \<open>A text bound to a \<open>decimal\<close> column goes through the column type's input function.\<close>

fun numericParam :: "platform \<Rightarrow> string option assign \<Rightarrow> string option assign option" where
  "numericParam P Keep = Some Keep"
| "numericParam P (Assign None) = Some (Assign None)"
| "numericParam P (Assign (Some s)) =
     (case numericIn P s of None \<Rightarrow> None | Some t \<Rightarrow> Some (Assign (Some t)))"

text \<open>
  \<open>db.update(sellers).set(updateData).where(eq(sellers.id, id))\<close>: one statement, which
  either fails as a whole (\<open>None\<close>) or rewrites every row with that id.
\<close>

definition updateSellers :: "platform \<Rightarrow> updateData \<Rightarrow> int \<Rightarrow> seller list \<Rightarrow> seller list option" where
  "updateSellers P upd sid rows =
     (case numericParam P (u_latitude upd) of
        None \<Rightarrow> None
      | Some la \<Rightarrow>
          (case numericParam P (u_longitude upd) of
             None \<Rightarrow> None
           | Some lo \<Rightarrow>
               Some (map (\<lambda>r. if s_id r = sid
                               then r \<lparr> s_updatedAt := u_updatedAt upd,
                                      s_latitude := assignTo la (s_latitude r),
                                      s_longitude := assignTo lo (s_longitude r),
                                      s_lastLocationUpdate :=
                                        assignTo (u_lastLocationUpdate upd) (s_lastLocationUpdate r),
                                      s_isActive := assignTo (u_isActive upd) (s_isActive r) \<rparr>
                               else r) rows)))"

record location_response =
  r_isActive :: bool
  r_latitude :: "number option"
  r_longitude :: "number option"
  r_lastLocationUpdate :: "int option"

definition locationFailed :: http_error where
  "locationFailed = HttpError 500 ''Failed to update location''"

text \<open>The handler proper, run with \<open>req.userId\<close> set; it returns the answer and the tables.\<close>

definition patchLocationHandler ::
  "platform \<Rightarrow> int \<Rightarrow> int \<Rightarrow> location_body \<Rightarrow> db \<Rightarrow> (http_error + location_response) \<times> db" where
  "patchLocationHandler P now userId body d =
     (case take 1 (filter (\<lambda>s. s_userId s = userId) (sellers d)) of
        [] \<Rightarrow> (Inl (HttpError 404 ''Seller profile not found''), d)
      | seller # _ \<Rightarrow>
          (case locationUpdateData P now body of
             None \<Rightarrow> (Inl locationFailed, d)
           | Some updateData \<Rightarrow>
               (case updateSellers P updateData (s_id seller) (sellers d) of
                  None \<Rightarrow> (Inl locationFailed, d)
                | Some rows \<Rightarrow>
                    (let d' = d \<lparr> sellers := rows \<rparr>
                     in case take 1 (filter (\<lambda>s. s_id s = s_id seller) rows) of
                          [] \<Rightarrow> (Inl locationFailed, d')
                        | updatedSeller # _ \<Rightarrow>
                            (Inr \<lparr> r_isActive = s_isActive updatedSeller,
                                   r_latitude =
                                     parseIfTruthy (parseFloat P) (s_latitude updatedSeller),
                                   r_longitude =
                                     parseIfTruthy (parseFloat P) (s_longitude updatedSeller),
                                   r_lastLocationUpdate =
                                     s_lastLocationUpdate updatedSeller \<rparr>, d')))))"

text \<open>The route: \<open>authMiddleware\<close>, then \<open>sellerOnly\<close>, then the handler.\<close>

definition patchLocation ::
  "platform \<Rightarrow> int \<Rightarrow> string option \<Rightarrow> location_body \<Rightarrow> db \<Rightarrow> (http_error + location_response) \<times> db" where
  "patchLocation P now authHeader body d =
     (case authMiddleware P authHeader of
        Inl e \<Rightarrow> (Inl e, d)
      | Inr (userId, userType) \<Rightarrow>
          (case sellerOnly userType of
             Inl e \<Rightarrow> (Inl e, d)
           | Inr _ \<Rightarrow> patchLocationHandler P now userId body d))"

section \<open>Administrative toggle (routes/admin.ts, PUT /vendors/:id/toggle-active)\<close>

record toggle_response =
  t_message :: string
  t_isActive :: bool

text \<open>
  The route with \<open>sellerId\<close> the integer that \<open>parseInt(req.params.id)\<close> gave. The update
  sets \<open>isActive\<close> and \<open>updatedAt\<close> and nothing else; \<open>returning()\<close> gives the
  rewritten rows.
\<close>

definition toggleActive ::
  "platform \<Rightarrow> int \<Rightarrow> string option \<Rightarrow> int \<Rightarrow> db \<Rightarrow> (http_error + toggle_response) \<times> db" where
  "toggleActive P now authHeader sellerId d =
     (case authMiddleware P authHeader of
        Inl e \<Rightarrow> (Inl e, d)
      | Inr (userId, userType) \<Rightarrow>
          (case adminOnly userType of
             Inl e \<Rightarrow> (Inl e, d)
           | Inr _ \<Rightarrow>
               (case filter (\<lambda>s. s_id s = sellerId) (sellers d) of
                  [] \<Rightarrow> (Inl (HttpError 404 ''Vendor not found''), d)
                | seller # _ \<Rightarrow>
                    (let rows = map (\<lambda>r. if s_id r = sellerId
                                          then r \<lparr> s_isActive := \<not> s_isActive seller,
                                                 s_updatedAt := now \<rparr>
                                          else r) (sellers d);
                         d' = d \<lparr> sellers := rows \<rparr>
                     in case filter (\<lambda>s. s_id s = sellerId) rows of
                          [] \<Rightarrow> (Inl (HttpError 500 ''Failed to toggle vendor status''), d')
                        | updatedSeller # _ \<Rightarrow>
                            (Inr \<lparr> t_message = ''Vendor '' @
                                     (if s_isActive updatedSeller then ''activated''
                                      else ''deactivated'') @ '' successfully'',
                                   t_isActive = s_isActive updatedSeller \<rparr>, d')))))"

section \<open>Arithmetic: two instances\<close>

text \<open>\<open>Math.atan2(y, x)\<close> on real numbers.\<close>

definition atan2 :: "real \<Rightarrow> real \<Rightarrow> real" where
  "atan2 y x =
     (if 0 < x then arctan (y / x)
      else if x < 0 then (if 0 \<le> y then arctan (y / x) + pi else arctan (y / x) - pi)
      else if 0 < y then pi / 2
      else if y < 0 then - (pi / 2)
      else 0)"

fun lift1 :: "(real \<Rightarrow> real) \<Rightarrow> number \<Rightarrow> number" where
  "lift1 f (Num a) = Num (f a)"
| "lift1 f NaN = NaN"

fun lift2 :: "(real \<Rightarrow> real \<Rightarrow> real) \<Rightarrow> number \<Rightarrow> number \<Rightarrow> number" where
  "lift2 f (Num a) (Num b) = Num (f a b)"
| "lift2 f _ _ = NaN"

fun exactDiv :: "number \<Rightarrow> number \<Rightarrow> number" where
  "exactDiv (Num a) (Num b) = (if b = 0 then NaN else Num (a / b))"
| "exactDiv _ _ = NaN"

fun exactSqrt :: "number \<Rightarrow> number" where
  "exactSqrt (Num a) = (if a < 0 then NaN else Num (sqrt a))"
| "exactSqrt NaN = NaN"

text \<open>
  Arithmetic without rounding. It is not the arithmetic the code runs in; it shows
  what the formula of \<open>calculateDistance\<close> denotes.
\<close>

definition exactArith :: arith where
  "exactArith =
     \<lparr> fadd = lift2 (\<lambda>a b. a + b), fsub = lift2 (\<lambda>a b. a - b), fmul = lift2 (\<lambda>a b. a * b),
       fdiv = exactDiv, mathPI = Num pi, mathSin = lift1 sin, mathCos = lift1 cos,
       mathSqrt = exactSqrt, mathAtan2 = lift2 atan2 \<rparr>"

text \<open>
  The arithmetic of IEEE 754 doubles (binary64, round to nearest, ties to even) on the
  operands that \<open>calculateDistance\<close> reads at four inputs: from (-12, -179) to (12, 1)
  and back, from (0, 1) to (90, 1), and from (40, -75) to itself. Each entry is the
  double the operation returns, written as the fraction it denotes: the correctly
  rounded result for the operators and \<open>Math.sqrt\<close>, and the double nearest to the
  exact value for \<open>Math.sin\<close>, \<open>Math.cos\<close> and \<open>Math.atan2\<close>. \<open>Math.sqrt\<close> of a negative
  number and every operation on \<open>NaN\<close> give \<open>NaN\<close>; the last branch of each table is a
  default that no example reads.
\<close>

definition samplePI :: number where
  "samplePI = Num (884279719003555 / 281474976710656)"

definition sampleAdd :: "number \<Rightarrow> number \<Rightarrow> number" where
  "sampleAdd x y =
     (case x of
        NaN \<Rightarrow> NaN
      | Num a \<Rightarrow>
          (case y of
             NaN \<Rightarrow> NaN
           | Num b \<Rightarrow>
               if a = 6229706315924309 / 144115188075855872 \<and> b = 2154460652498931 / 2251799813685248 then Num (4503599627370497 / 4503599627370496)
               else if a = 4503599627370495 / 9007199254740992 \<and> b = 0 then Num (4503599627370495 / 9007199254740992)
               else if a = 0 \<and> b = 0 then Num (0)
               else NaN))"

definition sampleSub :: "number \<Rightarrow> number \<Rightarrow> number" where
  "sampleSub x y =
     (case x of
        NaN \<Rightarrow> NaN
      | Num a \<Rightarrow>
          (case y of
             NaN \<Rightarrow> NaN
           | Num b \<Rightarrow>
               if a = 12 \<and> b = - 12 then Num (24)
               else if a = 1 \<and> b = - 179 then Num (180)
               else if a = 1 \<and> b = 4503599627370497 / 4503599627370496 then Num (- (1 / 4503599627370496))
               else if a = - 12 \<and> b = 12 then Num (- 24)
               else if a = - 179 \<and> b = 1 then Num (- 180)
               else if a = 90 \<and> b = 0 then Num (90)
               else if a = 1 \<and> b = 1 then Num (0)
               else if a = 1 \<and> b = 4503599627370495 / 9007199254740992 then Num (4503599627370497 / 9007199254740992)
               else if a = 40 \<and> b = 40 then Num (0)
               else if a = - 75 \<and> b = - 75 then Num (0)
               else if a = 1 \<and> b = 0 then Num (1)
               else NaN))"

definition sampleMul :: "number \<Rightarrow> number \<Rightarrow> number" where
  "sampleMul x y =
     (case x of
        NaN \<Rightarrow> NaN
      | Num a \<Rightarrow>
          (case y of
             NaN \<Rightarrow> NaN
           | Num b \<Rightarrow>
               if a = 24 \<and> b = 884279719003555 / 281474976710656 then Num (2652839157010665 / 35184372088832)
               else if a = 180 \<and> b = 884279719003555 / 281474976710656 then Num (4974073419394997 / 8796093022208)
               else if a = 7490808106342645 / 36028797018963968 \<and> b = 7490808106342645 / 36028797018963968 then Num (6229706315924309 / 144115188075855872)
               else if a = - 12 \<and> b = 884279719003555 / 281474976710656 then Num (- (2652839157010665 / 70368744177664))
               else if a = 12 \<and> b = 884279719003555 / 281474976710656 then Num (2652839157010665 / 70368744177664)
               else if a = 68831018284033 / 70368744177664 \<and> b = 68831018284033 / 70368744177664 then Num (2154460652498931 / 2251799813685248)
               else if a = 2154460652498931 / 2251799813685248 \<and> b = 1 then Num (2154460652498931 / 2251799813685248)
               else if a = - 24 \<and> b = 884279719003555 / 281474976710656 then Num (- (2652839157010665 / 35184372088832))
               else if a = - 180 \<and> b = 884279719003555 / 281474976710656 then Num (- (4974073419394997 / 8796093022208))
               else if a = - (7490808106342645 / 36028797018963968) \<and> b = - (7490808106342645 / 36028797018963968) then Num (6229706315924309 / 144115188075855872)
               else if a = 2154460652498931 / 2251799813685248 \<and> b = - 1 then Num (- (2154460652498931 / 2251799813685248))
               else if a = - (2154460652498931 / 2251799813685248) \<and> b = - 1 then Num (2154460652498931 / 2251799813685248)
               else if a = 90 \<and> b = 884279719003555 / 281474976710656 then Num (4974073419394997 / 17592186044416)
               else if a = 0 \<and> b = 884279719003555 / 281474976710656 then Num (0)
               else if a = 1592262918131443 / 2251799813685248 \<and> b = 1592262918131443 / 2251799813685248 then Num (4503599627370495 / 9007199254740992)
               else if a = 1 \<and> b = 4967757600021511 / 81129638414606681695789005144064 then Num (4967757600021511 / 81129638414606681695789005144064)
               else if a = 4967757600021511 / 81129638414606681695789005144064 \<and> b = 0 then Num (0)
               else if a = 0 \<and> b = 0 then Num (0)
               else if a = 2 \<and> b = 884279719003555 / 1125899906842624 then Num (884279719003555 / 562949953421312)
               else if a = 3959 \<and> b = 884279719003555 / 562949953421312 then Num (3418811921420971 / 549755813888)
               else if a = 40 \<and> b = 884279719003555 / 281474976710656 then Num (4421398595017775 / 35184372088832)
               else if a = 6899914937159737 / 9007199254740992 \<and> b = 6899914937159737 / 9007199254740992 then Num (5285641495604849 / 9007199254740992)
               else if a = 5285641495604849 / 9007199254740992 \<and> b = 0 then Num (0)
               else if a = 2 \<and> b = 0 then Num (0)
               else if a = 3959 \<and> b = 0 then Num (0)
               else NaN))"

definition sampleDiv :: "number \<Rightarrow> number \<Rightarrow> number" where
  "sampleDiv x y =
     (case x of
        NaN \<Rightarrow> NaN
      | Num a \<Rightarrow>
          (case y of
             NaN \<Rightarrow> NaN
           | Num b \<Rightarrow>
               if a = 2652839157010665 / 35184372088832 \<and> b = 180 then Num (7545853602163669 / 18014398509481984)
               else if a = 4974073419394997 / 8796093022208 \<and> b = 180 then Num (884279719003555 / 281474976710656)
               else if a = 7545853602163669 / 18014398509481984 \<and> b = 2 then Num (7545853602163669 / 36028797018963968)
               else if a = - (2652839157010665 / 70368744177664) \<and> b = 180 then Num (- (7545853602163669 / 36028797018963968))
               else if a = 2652839157010665 / 70368744177664 \<and> b = 180 then Num (7545853602163669 / 36028797018963968)
               else if a = 884279719003555 / 281474976710656 \<and> b = 2 then Num (884279719003555 / 562949953421312)
               else if a = - (2652839157010665 / 35184372088832) \<and> b = 180 then Num (- (7545853602163669 / 18014398509481984))
               else if a = - (4974073419394997 / 8796093022208) \<and> b = 180 then Num (- (884279719003555 / 281474976710656))
               else if a = - (7545853602163669 / 18014398509481984) \<and> b = 2 then Num (- (7545853602163669 / 36028797018963968))
               else if a = - (884279719003555 / 281474976710656) \<and> b = 2 then Num (- (884279719003555 / 562949953421312))
               else if a = 4974073419394997 / 17592186044416 \<and> b = 180 then Num (884279719003555 / 562949953421312)
               else if a = 0 \<and> b = 180 then Num (0)
               else if a = 884279719003555 / 562949953421312 \<and> b = 2 then Num (884279719003555 / 1125899906842624)
               else if a = 0 \<and> b = 2 then Num (0)
               else if a = 4421398595017775 / 35184372088832 \<and> b = 180 then Num (6288211335136391 / 9007199254740992)
               else NaN))"

definition sampleSin :: "number \<Rightarrow> number" where
  "sampleSin x =
     (case x of
        NaN \<Rightarrow> NaN
      | Num a \<Rightarrow>
          if a = 7545853602163669 / 36028797018963968 then Num (7490808106342645 / 36028797018963968)
          else if a = 884279719003555 / 562949953421312 then Num (1)
          else if a = - (7545853602163669 / 36028797018963968) then Num (- (7490808106342645 / 36028797018963968))
          else if a = - (884279719003555 / 562949953421312) then Num (- 1)
          else if a = 884279719003555 / 1125899906842624 then Num (1592262918131443 / 2251799813685248)
          else if a = 0 then Num (0)
          else NaN)"

definition sampleCos :: "number \<Rightarrow> number" where
  "sampleCos x =
     (case x of
        NaN \<Rightarrow> NaN
      | Num a \<Rightarrow>
          if a = - (7545853602163669 / 36028797018963968) then Num (68831018284033 / 70368744177664)
          else if a = 7545853602163669 / 36028797018963968 then Num (68831018284033 / 70368744177664)
          else if a = 0 then Num (1)
          else if a = 884279719003555 / 562949953421312 then Num (4967757600021511 / 81129638414606681695789005144064)
          else if a = 6288211335136391 / 9007199254740992 then Num (6899914937159737 / 9007199254740992)
          else NaN)"

definition sampleSqrt :: "number \<Rightarrow> number" where
  "sampleSqrt x =
     (case x of
        NaN \<Rightarrow> NaN
      | Num a \<Rightarrow>
          if a < 0 then NaN
          else if a = 4503599627370497 / 4503599627370496 then Num (1)
          else if a = 4503599627370495 / 9007199254740992 then Num (1592262918131443 / 2251799813685248)
          else if a = 4503599627370497 / 9007199254740992 then Num (6369051672525773 / 9007199254740992)
          else if a = 0 then Num (0)
          else if a = 1 then Num (1)
          else NaN)"

definition sampleAtan2 :: "number \<Rightarrow> number \<Rightarrow> number" where
  "sampleAtan2 x y =
     (case x of
        NaN \<Rightarrow> NaN
      | Num a \<Rightarrow>
          (case y of
             NaN \<Rightarrow> NaN
           | Num b \<Rightarrow>
               if a = 1592262918131443 / 2251799813685248 \<and> b = 6369051672525773 / 9007199254740992 then Num (884279719003555 / 1125899906842624)
               else if a = 0 \<and> b = 1 then Num (0)
               else NaN))"

definition sampleArith :: arith where
  "sampleArith =
     \<lparr> fadd = sampleAdd, fsub = sampleSub, fmul = sampleMul, fdiv = sampleDiv,
       mathPI = samplePI, mathSin = sampleSin, mathCos = sampleCos, mathSqrt = sampleSqrt,
       mathAtan2 = sampleAtan2 \<rparr>"

section \<open>Sample data\<close>

text \<open>
  Concrete stand-ins for the builtins, used where a theorem is evaluated at an input.
  Each agrees with the builtin it stands for on the strings and numbers it lists, and
  on \<open>''north''\<close>, which is no number; the last branch of each is a default that no
  example reads. The stored form of a \<open>decimal(10, 7)\<close> value has seven fractional
  digits.
\<close>

definition sampleParseFloat :: "string \<Rightarrow> number" where
  "sampleParseFloat s =
     (if s = ''0'' \<or> s = ''0.0000000'' then Num 0
      else if s = ''1'' \<or> s = ''1.0000000'' then Num 1
      else if s = ''10'' \<or> s = ''10.0000000'' then Num 10
      else if s = ''40'' \<or> s = ''40.0000000'' then Num 40
      else if s = ''50'' then Num 50
      else if s = ''-75'' \<or> s = ''-75.0000000'' then Num (- 75)
      else if s = ''90'' \<or> s = ''90.0000000'' then Num 90
      else if s = ''95'' \<or> s = ''95.0000000'' then Num 95
      else if s = ''200'' \<or> s = ''200.0000000'' then Num 200
      else NaN)"

definition sampleNumberToString :: "real \<Rightarrow> string" where
  "sampleNumberToString r =
     (if r = 0 then ''0'' else if r = 40 then ''40'' else if r = - 75 then ''-75''
      else if r = 95 then ''95'' else if r = 200 then ''200'' else ''NaN'')"

definition sampleJwtVerify :: "string \<Rightarrow> (int \<times> string) option" where
  "sampleJwtVerify token =
     (if token = ''seller-101'' then Some (101, ''seller'')
      else if token = ''seller-999'' then Some (999, ''seller'')
      else if token = ''searcher-7'' then Some (7, ''searcher'')
      else if token = ''admin-1'' then Some (1, ''admin'')
      else None)"

definition sampleNumericIn :: "string \<Rightarrow> string option" where
  "sampleNumericIn s =
     (if s = ''40'' then Some ''40.0000000''
      else if s = ''-75'' then Some ''-75.0000000''
      else if s = ''95'' then Some ''95.0000000''
      else if s = ''200'' then Some ''200.0000000''
      else None)"

definition samplePlatform :: platform where
  "samplePlatform =
     \<lparr> parseFloat = sampleParseFloat, numberToString = sampleNumberToString,
       jwtVerify = sampleJwtVerify, numericIn = sampleNumericIn \<rparr>"

text \<open>The seller with id \<open>i\<close>, owned by user \<open>100 + i\<close>.\<close>

definition sampleSeller :: "int \<Rightarrow> bool \<Rightarrow> string option \<Rightarrow> string option \<Rightarrow> int option \<Rightarrow> seller" where
  "sampleSeller i act la lo t =
     \<lparr> s_id = i, s_userId = 100 + i, s_businessName = ''Cone Zone'', s_ownerName = ''Ada'',
       s_phone = ''555-0100'', s_description = None, s_isActive = act, s_latitude = la,
       s_longitude = lo, s_lastLocationUpdate = t, s_createdAt = 0, s_updatedAt = 0 \<rparr>"

section \<open>Distance Calculator: the formula without rounding\<close>

lemma sin_half_swap:
  "sin ((x - y) * pi / 180 / 2) * sin ((x - y) * pi / 180 / 2) =
   sin ((y - x) * pi / 180 / 2) * sin ((y - x) * pi / 180 / 2)"
proof -
  have "(x - y) * pi / 180 / 2 = - ((y - x) * pi / 180 / 2)"
    by (simp add: field_simps)
  then have "sin ((x - y) * pi / 180 / 2) = - sin ((y - x) * pi / 180 / 2)"
    by (metis sin_minus)
  then show ?thesis by simp
qed

lemma cos_product:
  fixes x y :: real
  shows "cos (y - x) * cos (y + x) = cos y * cos y - sin x * sin x"
proof -
  have x: "cos x * cos x = 1 - sin x * sin x" and y: "sin y * sin y = 1 - cos y * cos y"
    using sin_cos_squared_add3 [of x] sin_cos_squared_add3 [of y] by linarith+
  have "cos (y - x) * cos (y + x)
        = cos y * cos y * (cos x * cos x) - sin y * sin y * (sin x * sin x)"
    by (simp add: cos_add cos_diff algebra_simps)
  also have "\<dots> = cos y * cos y - sin x * sin x"
    unfolding x y by (simp add: algebra_simps)
  finally show ?thesis .
qed

lemma sin_square_unit:
  fixes z :: real
  shows "0 \<le> sin z * sin z \<and> sin z * sin z \<le> 1"
  using sin_cos_squared_add3 [of z] zero_le_square [of "cos z"] zero_le_square [of "sin z"]
  by linarith

lemma cos_square_unit:
  fixes z :: real
  shows "0 \<le> cos z * cos z \<and> cos z * cos z \<le> 1"
  using sin_cos_squared_add3 [of z] zero_le_square [of "cos z"] zero_le_square [of "sin z"]
  by linarith

lemma convex_unit:
  fixes t s c :: real
  assumes "0 \<le> t \<and> t \<le> 1" and "0 \<le> s \<and> s \<le> 1" and "0 \<le> c \<and> c \<le> 1"
  shows "0 \<le> s + (c - s) * t \<and> s + (c - s) * t \<le> 1"
proof -
  have e: "s + (c - s) * t = (1 - t) * s + t * c" by (simp add: algebra_simps)
  have "0 \<le> (1 - t) * s" "0 \<le> t * c" using assms by simp_all
  moreover have "(1 - t) * s \<le> 1 - t" "t * c \<le> t"
    using assms mult_left_le [of s "1 - t"] mult_left_le [of c t] by simp_all
  ultimately show ?thesis unfolding e by linarith
qed

text \<open>
  In exact arithmetic the haversine term \<open>a\<close> lies in \<open>[0, 1]\<close> for all inputs, so both
  square roots of \<open>calculateDistance\<close> are taken of non-negative numbers.
\<close>

lemma haversine_argument_range:
  "0 \<le> sin ((lat2 - lat1) * pi / 180 / 2) * sin ((lat2 - lat1) * pi / 180 / 2) +
        cos (lat1 * pi / 180) * cos (lat2 * pi / 180) *
        sin ((lon2 - lon1) * pi / 180 / 2) * sin ((lon2 - lon1) * pi / 180 / 2)
   \<and> sin ((lat2 - lat1) * pi / 180 / 2) * sin ((lat2 - lat1) * pi / 180 / 2) +
        cos (lat1 * pi / 180) * cos (lat2 * pi / 180) *
        sin ((lon2 - lon1) * pi / 180 / 2) * sin ((lon2 - lon1) * pi / 180 / 2) \<le> 1"
proof -
  let ?x = "(lat2 - lat1) * pi / 180 / 2"
  let ?y = "(lat1 + lat2) * pi / 180 / 2"
  let ?l = "(lon2 - lon1) * pi / 180 / 2"
  have l1: "lat1 * pi / 180 = ?y - ?x" and l2: "lat2 * pi / 180 = ?y + ?x"
    by (simp_all add: field_simps)
  have "cos (lat1 * pi / 180) * cos (lat2 * pi / 180) = cos ?y * cos ?y - sin ?x * sin ?x"
    unfolding l1 l2 by (rule cos_product)
  then have e: "sin ?x * sin ?x + cos (lat1 * pi / 180) * cos (lat2 * pi / 180) * sin ?l * sin ?l
        = sin ?x * sin ?x + (cos ?y * cos ?y - sin ?x * sin ?x) * (sin ?l * sin ?l)"
    by (simp only: mult.assoc)
  show ?thesis
    unfolding e
    by (rule convex_unit [OF sin_square_unit sin_square_unit cos_square_unit])
qed

lemma exact_fields:
  "fadd exactArith = lift2 (\<lambda>a b. a + b)" "fsub exactArith = lift2 (\<lambda>a b. a - b)"
  "fmul exactArith = lift2 (\<lambda>a b. a * b)" "fdiv exactArith = exactDiv"
  "mathPI exactArith = Num pi" "mathSin exactArith = lift1 sin" "mathCos exactArith = lift1 cos"
  "mathSqrt exactArith = exactSqrt" "mathAtan2 exactArith = lift2 atan2"
  by (simp_all add: exactArith_def)

lemma haversineTerm_exact:
  "haversineTerm exactArith (Num lat1) (Num lon1) (Num lat2) (Num lon2) =
     Num (sin ((lat2 - lat1) * pi / 180 / 2) * sin ((lat2 - lat1) * pi / 180 / 2) +
          cos (lat1 * pi / 180) * cos (lat2 * pi / 180) *
          sin ((lon2 - lon1) * pi / 180 / 2) * sin ((lon2 - lon1) * pi / 180 / 2))"
  by (simp add: haversineTerm_def Let_def exact_fields)

lemma calculateDistance_exact:
  assumes "haversineTerm exactArith x1 y1 x2 y2 = Num a" and "0 \<le> a \<and> a \<le> 1"
  shows "calculateDistance exactArith x1 y1 x2 y2 =
           Num (3959 * (2 * atan2 (sqrt a) (sqrt (1 - a))))"
  using assms by (simp add: calculateDistance_def Let_def exact_fields)

text \<open>
  Without rounding the formula is symmetric in its two coordinate pairs, is 0 from a
  pair to itself, and gives a quarter of a great circle from the equator to the pole.
\<close>

lemma calculateDistance_exact_symmetric:
  "calculateDistance exactArith (Num lat1) (Num lon1) (Num lat2) (Num lon2) =
   calculateDistance exactArith (Num lat2) (Num lon2) (Num lat1) (Num lon1)"
proof -
  have "haversineTerm exactArith (Num lat1) (Num lon1) (Num lat2) (Num lon2) =
        haversineTerm exactArith (Num lat2) (Num lon2) (Num lat1) (Num lon1)"
    unfolding haversineTerm_exact
    using sin_half_swap [of lat2 lat1] sin_half_swap [of lon2 lon1]
    by (simp add: mult.assoc mult.left_commute)
  then show ?thesis
    by (simp add: calculateDistance_def Let_def)
qed

lemma calculateDistance_exact_self:
  "calculateDistance exactArith (Num lat) (Num lon) (Num lat) (Num lon) = Num 0"
proof -
  have "haversineTerm exactArith (Num lat) (Num lon) (Num lat) (Num lon) = Num 0"
    by (simp add: haversineTerm_exact)
  from calculateDistance_exact [OF this] show ?thesis
    by (simp add: atan2_def)
qed

lemma calculateDistance_exact_equator_to_pole:
  "calculateDistance exactArith (Num 0) (Num 1) (Num 90) (Num 1) = Num (3959 * pi / 2)"
proof -
  have s: "sin (pi / 4) * sin (pi / 4) = 1 / 2"
    by (simp add: sin_45)
  have "haversineTerm exactArith (Num 0) (Num 1) (Num 90) (Num 1) = Num (1 / 2)"
    unfolding haversineTerm_exact using s by simp
  from calculateDistance_exact [OF this]
  have "calculateDistance exactArith (Num 0) (Num 1) (Num 90) (Num 1) =
          Num (3959 * (2 * atan2 (sqrt (1 / 2)) (sqrt (1 - 1 / 2))))"
    by simp
  moreover have "atan2 (sqrt (1 / 2)) (sqrt (1 - 1 / 2)) = pi / 4"
    by (simp add: atan2_def arctan_one)
  ultimately show ?thesis by simp
qed

text \<open>
  The haversine term of every pair of finite coordinates lies in \<open>[0, 1]\<close> when nothing
  rounds, so without rounding the distance is always a number.
\<close>

lemma calculateDistance_exact_number:
  "\<exists>r. calculateDistance exactArith (Num lat1) (Num lon1) (Num lat2) (Num lon2) = Num r"
  using calculateDistance_exact [OF haversineTerm_exact haversine_argument_range] by blast

section \<open>Distance Calculator: in double arithmetic\<close>

lemma sample_pi: "mathPI sampleArith = Num (884279719003555 / 281474976710656)"
  by (simp add: sampleArith_def samplePI_def)

lemma sample_add:
  "fadd sampleArith (Num (6229706315924309 / 144115188075855872)) (Num (2154460652498931 / 2251799813685248)) = Num (4503599627370497 / 4503599627370496)"
  "fadd sampleArith (Num (4503599627370495 / 9007199254740992)) (Num (0)) = Num (4503599627370495 / 9007199254740992)"
  "fadd sampleArith (Num (0)) (Num (0)) = Num (0)"
  by (simp_all add: sampleArith_def sampleAdd_def)

lemma sample_sub:
  "fsub sampleArith (Num (12)) (Num (- 12)) = Num (24)"
  "fsub sampleArith (Num (1)) (Num (- 179)) = Num (180)"
  "fsub sampleArith (Num (1)) (Num (4503599627370497 / 4503599627370496)) = Num (- (1 / 4503599627370496))"
  "fsub sampleArith (Num (- 12)) (Num (12)) = Num (- 24)"
  "fsub sampleArith (Num (- 179)) (Num (1)) = Num (- 180)"
  "fsub sampleArith (Num (90)) (Num (0)) = Num (90)"
  "fsub sampleArith (Num (1)) (Num (1)) = Num (0)"
  "fsub sampleArith (Num (1)) (Num (4503599627370495 / 9007199254740992)) = Num (4503599627370497 / 9007199254740992)"
  "fsub sampleArith (Num (40)) (Num (40)) = Num (0)"
  "fsub sampleArith (Num (- 75)) (Num (- 75)) = Num (0)"
  "fsub sampleArith (Num (1)) (Num (0)) = Num (1)"
  by (simp_all add: sampleArith_def sampleSub_def)

lemma sample_mul:
  "fmul sampleArith (Num (24)) (Num (884279719003555 / 281474976710656)) = Num (2652839157010665 / 35184372088832)"
  "fmul sampleArith (Num (180)) (Num (884279719003555 / 281474976710656)) = Num (4974073419394997 / 8796093022208)"
  "fmul sampleArith (Num (7490808106342645 / 36028797018963968)) (Num (7490808106342645 / 36028797018963968)) = Num (6229706315924309 / 144115188075855872)"
  "fmul sampleArith (Num (- 12)) (Num (884279719003555 / 281474976710656)) = Num (- (2652839157010665 / 70368744177664))"
  "fmul sampleArith (Num (12)) (Num (884279719003555 / 281474976710656)) = Num (2652839157010665 / 70368744177664)"
  "fmul sampleArith (Num (68831018284033 / 70368744177664)) (Num (68831018284033 / 70368744177664)) = Num (2154460652498931 / 2251799813685248)"
  "fmul sampleArith (Num (2154460652498931 / 2251799813685248)) (Num (1)) = Num (2154460652498931 / 2251799813685248)"
  "fmul sampleArith (Num (- 24)) (Num (884279719003555 / 281474976710656)) = Num (- (2652839157010665 / 35184372088832))"
  "fmul sampleArith (Num (- 180)) (Num (884279719003555 / 281474976710656)) = Num (- (4974073419394997 / 8796093022208))"
  "fmul sampleArith (Num (- (7490808106342645 / 36028797018963968))) (Num (- (7490808106342645 / 36028797018963968))) = Num (6229706315924309 / 144115188075855872)"
  "fmul sampleArith (Num (2154460652498931 / 2251799813685248)) (Num (- 1)) = Num (- (2154460652498931 / 2251799813685248))"
  "fmul sampleArith (Num (- (2154460652498931 / 2251799813685248))) (Num (- 1)) = Num (2154460652498931 / 2251799813685248)"
  "fmul sampleArith (Num (90)) (Num (884279719003555 / 281474976710656)) = Num (4974073419394997 / 17592186044416)"
  "fmul sampleArith (Num (0)) (Num (884279719003555 / 281474976710656)) = Num (0)"
  "fmul sampleArith (Num (1592262918131443 / 2251799813685248)) (Num (1592262918131443 / 2251799813685248)) = Num (4503599627370495 / 9007199254740992)"
  "fmul sampleArith (Num (1)) (Num (4967757600021511 / 81129638414606681695789005144064)) = Num (4967757600021511 / 81129638414606681695789005144064)"
  "fmul sampleArith (Num (4967757600021511 / 81129638414606681695789005144064)) (Num (0)) = Num (0)"
  "fmul sampleArith (Num (0)) (Num (0)) = Num (0)"
  "fmul sampleArith (Num (2)) (Num (884279719003555 / 1125899906842624)) = Num (884279719003555 / 562949953421312)"
  "fmul sampleArith (Num (3959)) (Num (884279719003555 / 562949953421312)) = Num (3418811921420971 / 549755813888)"
  "fmul sampleArith (Num (40)) (Num (884279719003555 / 281474976710656)) = Num (4421398595017775 / 35184372088832)"
  "fmul sampleArith (Num (6899914937159737 / 9007199254740992)) (Num (6899914937159737 / 9007199254740992)) = Num (5285641495604849 / 9007199254740992)"
  "fmul sampleArith (Num (5285641495604849 / 9007199254740992)) (Num (0)) = Num (0)"
  "fmul sampleArith (Num (2)) (Num (0)) = Num (0)"
  "fmul sampleArith (Num (3959)) (Num (0)) = Num (0)"
  by (simp_all add: sampleArith_def sampleMul_def)

lemma sample_div:
  "fdiv sampleArith (Num (2652839157010665 / 35184372088832)) (Num (180)) = Num (7545853602163669 / 18014398509481984)"
  "fdiv sampleArith (Num (4974073419394997 / 8796093022208)) (Num (180)) = Num (884279719003555 / 281474976710656)"
  "fdiv sampleArith (Num (7545853602163669 / 18014398509481984)) (Num (2)) = Num (7545853602163669 / 36028797018963968)"
  "fdiv sampleArith (Num (- (2652839157010665 / 70368744177664))) (Num (180)) = Num (- (7545853602163669 / 36028797018963968))"
  "fdiv sampleArith (Num (2652839157010665 / 70368744177664)) (Num (180)) = Num (7545853602163669 / 36028797018963968)"
  "fdiv sampleArith (Num (884279719003555 / 281474976710656)) (Num (2)) = Num (884279719003555 / 562949953421312)"
  "fdiv sampleArith (Num (- (2652839157010665 / 35184372088832))) (Num (180)) = Num (- (7545853602163669 / 18014398509481984))"
  "fdiv sampleArith (Num (- (4974073419394997 / 8796093022208))) (Num (180)) = Num (- (884279719003555 / 281474976710656))"
  "fdiv sampleArith (Num (- (7545853602163669 / 18014398509481984))) (Num (2)) = Num (- (7545853602163669 / 36028797018963968))"
  "fdiv sampleArith (Num (- (884279719003555 / 281474976710656))) (Num (2)) = Num (- (884279719003555 / 562949953421312))"
  "fdiv sampleArith (Num (4974073419394997 / 17592186044416)) (Num (180)) = Num (884279719003555 / 562949953421312)"
  "fdiv sampleArith (Num (0)) (Num (180)) = Num (0)"
  "fdiv sampleArith (Num (884279719003555 / 562949953421312)) (Num (2)) = Num (884279719003555 / 1125899906842624)"
  "fdiv sampleArith (Num (0)) (Num (2)) = Num (0)"
  "fdiv sampleArith (Num (4421398595017775 / 35184372088832)) (Num (180)) = Num (6288211335136391 / 9007199254740992)"
  by (simp_all add: sampleArith_def sampleDiv_def)

lemma sample_sin:
  "mathSin sampleArith (Num (7545853602163669 / 36028797018963968)) = Num (7490808106342645 / 36028797018963968)"
  "mathSin sampleArith (Num (884279719003555 / 562949953421312)) = Num (1)"
  "mathSin sampleArith (Num (- (7545853602163669 / 36028797018963968))) = Num (- (7490808106342645 / 36028797018963968))"
  "mathSin sampleArith (Num (- (884279719003555 / 562949953421312))) = Num (- 1)"
  "mathSin sampleArith (Num (884279719003555 / 1125899906842624)) = Num (1592262918131443 / 2251799813685248)"
  "mathSin sampleArith (Num (0)) = Num (0)"
  by (simp_all add: sampleArith_def sampleSin_def)

lemma sample_cos:
  "mathCos sampleArith (Num (- (7545853602163669 / 36028797018963968))) = Num (68831018284033 / 70368744177664)"
  "mathCos sampleArith (Num (7545853602163669 / 36028797018963968)) = Num (68831018284033 / 70368744177664)"
  "mathCos sampleArith (Num (0)) = Num (1)"
  "mathCos sampleArith (Num (884279719003555 / 562949953421312)) = Num (4967757600021511 / 81129638414606681695789005144064)"
  "mathCos sampleArith (Num (6288211335136391 / 9007199254740992)) = Num (6899914937159737 / 9007199254740992)"
  by (simp_all add: sampleArith_def sampleCos_def)

lemma sample_sqrt:
  "mathSqrt sampleArith (Num (4503599627370497 / 4503599627370496)) = Num (1)"
  "mathSqrt sampleArith (Num (4503599627370495 / 9007199254740992)) = Num (1592262918131443 / 2251799813685248)"
  "mathSqrt sampleArith (Num (4503599627370497 / 9007199254740992)) = Num (6369051672525773 / 9007199254740992)"
  "mathSqrt sampleArith (Num (0)) = Num (0)"
  "mathSqrt sampleArith (Num (1)) = Num (1)"
  by (simp_all add: sampleArith_def sampleSqrt_def)

lemma sample_atan2:
  "mathAtan2 sampleArith (Num (1592262918131443 / 2251799813685248)) (Num (6369051672525773 / 9007199254740992)) = Num (884279719003555 / 1125899906842624)"
  "mathAtan2 sampleArith (Num (0)) (Num (1)) = Num (0)"
  by (simp_all add: sampleArith_def sampleAtan2_def)

lemma sample_nan:
  "mathSqrt sampleArith (Num (- (1 / 4503599627370496))) = NaN"
  "mathAtan2 sampleArith x NaN = NaN"
  "fmul sampleArith x NaN = NaN"
  by (simp_all add: sampleArith_def sampleSqrt_def sampleAtan2_def sampleMul_def
       split: number.splits)

lemmas sample_table = sample_pi sample_add sample_sub sample_mul sample_div sample_sin
  sample_cos sample_sqrt sample_atan2 sample_nan

lemma sample_term_antipodal:
  "haversineTerm sampleArith (Num (- 12)) (Num (- 179)) (Num 12) (Num 1)
     = Num (4503599627370497 / 4503599627370496)"
  "haversineTerm sampleArith (Num 12) (Num 1) (Num (- 12)) (Num (- 179))
     = Num (4503599627370497 / 4503599627370496)"
  by (simp_all add: haversineTerm_def Let_def sample_table)

lemma sample_distance_antipodal:
  "calculateDistance sampleArith (Num (- 12)) (Num (- 179)) (Num 12) (Num 1) = NaN"
  "calculateDistance sampleArith (Num 12) (Num 1) (Num (- 12)) (Num (- 179)) = NaN"
  by (simp_all add: calculateDistance_def sample_term_antipodal Let_def sample_table)

lemma sample_distance_equator_to_pole:
  "calculateDistance sampleArith (Num 0) (Num 1) (Num 90) (Num 1)
     = Num (3418811921420971 / 549755813888)"
  by (simp add: calculateDistance_def haversineTerm_def Let_def sample_table)

lemma sample_distance_self:
  "calculateDistance sampleArith (Num 40) (Num (- 75)) (Num 40) (Num (- 75)) = Num 0"
  by (simp add: calculateDistance_def haversineTerm_def Let_def sample_table)

text \<open>
  C7 at a failing input. From (-12, -179) to (12, 1), two points a half circle apart,
  the haversine term rounds to 1 + 2^(-52); \<open>1 - a\<close> is negative, its square root is
  \<open>NaN\<close>, and the distance is \<open>NaN\<close> in both orders, so the two distances are not
  \<open>==\<close>.
\<close>

theorem calculateDistance_antipodal_nan:
  "haversineTerm sampleArith (Num (- 12)) (Num (- 179)) (Num 12) (Num 1)
     = Num (4503599627370497 / 4503599627370496)
   \<and> fsub sampleArith (Num 1) (Num (4503599627370497 / 4503599627370496))
     = Num (- (1 / 4503599627370496))
   \<and> calculateDistance sampleArith (Num (- 12)) (Num (- 179)) (Num 12) (Num 1) = NaN
   \<and> calculateDistance sampleArith (Num 12) (Num 1) (Num (- 12)) (Num (- 179)) = NaN
   \<and> \<not> eq_number (calculateDistance sampleArith (Num (- 12)) (Num (- 179)) (Num 12) (Num 1))
                  (calculateDistance sampleArith (Num 12) (Num 1) (Num (- 12)) (Num (- 179)))"
  by (simp add: sample_term_antipodal sample_distance_antipodal sample_sub)

section \<open>Staleness check: the boundary\<close>

text \<open>
  C1, as the code has it. A last-update timestamp passes the staleness check of the
  discovery query iff it is present and at most 15 minutes old (\<open>now - lastUpdate\<close> is
  at most 900000 ms); an absent timestamp never passes.
\<close>

theorem staleness_fresh_iff:
  "(gte lastUpdate (staleThreshold now) \<longleftrightarrow>
      (\<exists>t. lastUpdate = Some t \<and> now - t \<le> 15 * 60 * 1000))
   \<and> \<not> gte None (staleThreshold now)"
  by (cases lastUpdate) (auto simp: staleThreshold_def STALE_THRESHOLD_MINUTES_def)

text \<open>
  C1 as stated fails at the boundary: a timestamp exactly 15 minutes old passes the
  check, although \<open>now - lastUpdate < 15 minutes\<close> is false.
\<close>

theorem staleness_boundary_counterexample:
  "gte (Some 0) (staleThreshold (15 * 60 * 1000))
   \<and> \<not> ((15 * 60 * 1000 :: int) - 0 < 15 * 60 * 1000)"
  by (simp add: staleThreshold_def STALE_THRESHOLD_MINUTES_def)

section \<open>Discovery query: shape of the result\<close>

lemma vendorEntry_latlng [simp]:
  "v_latitude (vendorEntry M pf ulat ulng offs s) = parseIfTruthy pf (s_latitude s)"
  "v_longitude (vendorEntry M pf ulat ulng offs s) = parseIfTruthy pf (s_longitude s)"
  by (simp_all add: vendorEntry_def Let_def)

lemma vendorEntry_id [simp]: "v_id (vendorEntry M pf ulat ulng offs s) = s_id s"
  by (simp add: vendorEntry_def Let_def)

lemma vendorEntry_distance:
  "v_distance (vendorEntry M pf ulat ulng offs s) =
     (if truthy ulat \<and> truthy ulng \<and> truthy (parseIfTruthy pf (s_latitude s))
         \<and> truthy (parseIfTruthy pf (s_longitude s))
      then calculateDistance M (numval ulat) (numval ulng)
             (numval (parseIfTruthy pf (s_latitude s))) (numval (parseIfTruthy pf (s_longitude s)))
      else Num 0)"
  by (simp add: vendorEntry_def Let_def)

lemma vendorEntry_falsy_origin:
  "\<not> (truthy ulat \<and> truthy ulng) \<Longrightarrow>
   vendorEntry M pf ulat ulng offs s = vendorEntry M pf None None offs s"
  by (auto simp: vendorEntry_def Let_def)

text \<open>Without a truthy origin: the selected rows in table order, nothing else.\<close>

lemma getActive_no_origin:
  assumes "\<not> (truthy (parseIfTruthy pf (q_lat q)) \<and> truthy (parseIfTruthy pf (q_lng q)))"
  shows "getActive M pf now q d =
           Inr (map (vendorEntry M pf None None (offerings d))
                  (filter (\<lambda>s. s_isActive s \<and> gte (s_lastLocationUpdate s) (staleThreshold now) \<and>
                               truthy (parseIfTruthy pf (s_latitude s)) \<and>
                               truthy (parseIfTruthy pf (s_longitude s)))
                     (sellers d)))"
  using assms vendorEntry_falsy_origin [OF assms, of M pf "offerings d"]
  by (simp add: getActive_def Let_def filter_map o_def conj_ac cong: conj_cong)

text \<open>With a truthy origin: the same rows, cut at the radius and sorted by distance.\<close>

lemma getActive_with_origin:
  assumes "truthy (parseIfTruthy pf (q_lat q))" and "truthy (parseIfTruthy pf (q_lng q))"
  shows "getActive M pf now q d =
           Inr (sort_key byDistance
                  (filter (\<lambda>v. le_number (v_distance v)
                                  (pf (case q_radius q of None \<Rightarrow> ''50'' | Some r \<Rightarrow> r)))
                     (map (vendorEntry M pf (parseIfTruthy pf (q_lat q)) (parseIfTruthy pf (q_lng q))
                             (offerings d))
                        (filter (\<lambda>s. s_isActive s \<and>
                                     gte (s_lastLocationUpdate s) (staleThreshold now) \<and>
                                     truthy (parseIfTruthy pf (s_latitude s)) \<and>
                                     truthy (parseIfTruthy pf (s_longitude s)))
                           (sellers d)))))"
  using assms
  by (simp add: getActive_def Let_def filter_map o_def conj_ac cong: conj_cong)

text \<open>
  The result with a truthy origin is in ascending order of distance, equal distances
  keep their order, and every distance in it is a number within the radius.
\<close>

lemma getActive_with_origin_sorted:
  assumes "truthy (parseIfTruthy pf (q_lat q))" and "truthy (parseIfTruthy pf (q_lng q))"
    and "getActive M pf now q d = Inr vs"
  shows "sorted (map byDistance vs)"
    and "filter (\<lambda>v. byDistance v = k) vs =
         filter (\<lambda>v. byDistance v = k)
           (filter (\<lambda>v. le_number (v_distance v)
                           (pf (case q_radius q of None \<Rightarrow> ''50'' | Some r \<Rightarrow> r)))
              (map (vendorEntry M pf (parseIfTruthy pf (q_lat q)) (parseIfTruthy pf (q_lng q))
                      (offerings d))
                 (filter (\<lambda>s. s_isActive s \<and>
                              gte (s_lastLocationUpdate s) (staleThreshold now) \<and>
                              truthy (parseIfTruthy pf (s_latitude s)) \<and>
                              truthy (parseIfTruthy pf (s_longitude s)))
                    (sellers d))))"
    and "\<forall>v \<in> set vs. v_distance v = Num (byDistance v) \<and>
           le_number (v_distance v) (pf (case q_radius q of None \<Rightarrow> ''50'' | Some r \<Rightarrow> r))"
proof -
  note eq = assms(3) [unfolded getActive_with_origin [OF assms(1,2)]]
  from eq show "sorted (map byDistance vs)" by auto
  from eq show "filter (\<lambda>v. byDistance v = k) vs =
         filter (\<lambda>v. byDistance v = k)
           (filter (\<lambda>v. le_number (v_distance v)
                           (pf (case q_radius q of None \<Rightarrow> ''50'' | Some r \<Rightarrow> r)))
              (map (vendorEntry M pf (parseIfTruthy pf (q_lat q)) (parseIfTruthy pf (q_lng q))
                      (offerings d))
                 (filter (\<lambda>s. s_isActive s \<and>
                              gte (s_lastLocationUpdate s) (staleThreshold now) \<and>
                              truthy (parseIfTruthy pf (s_latitude s)) \<and>
                              truthy (parseIfTruthy pf (s_longitude s)))
                    (sellers d))))"
    by (auto simp: sort_key_stable)
  have num: "le_number x y \<Longrightarrow> \<exists>r. x = Num r" for x y
    by (cases x; cases y) simp_all
  show "\<forall>v \<in> set vs. v_distance v = Num (byDistance v) \<and>
           le_number (v_distance v) (pf (case q_radius q of None \<Rightarrow> ''50'' | Some r \<Rightarrow> r))"
  proof
    fix v assume "v \<in> set vs"
    with eq have le: "le_number (v_distance v)
        (pf (case q_radius q of None \<Rightarrow> ''50'' | Some r \<Rightarrow> r))"
      by auto
    from num [OF le] obtain r where "v_distance v = Num r" ..
    with le show "v_distance v = Num (byDistance v) \<and>
           le_number (v_distance v) (pf (case q_radius q of None \<Rightarrow> ''50'' | Some r \<Rightarrow> r))"
      by (simp add: byDistance_def)
  qed
qed

lemma getActive_entries:
  assumes "getActive M pf now q d = Inr vs" and "v \<in> set vs"
  shows "\<exists>s \<in> set (sellers d). v_id v = s_id s \<and>
           s_isActive s \<and> gte (s_lastLocationUpdate s) (staleThreshold now) \<and>
           truthy (parseIfTruthy pf (s_latitude s)) \<and> truthy (parseIfTruthy pf (s_longitude s))"
proof -
  let ?keep = "\<lambda>s. s_isActive s \<and> gte (s_lastLocationUpdate s) (staleThreshold now) \<and>
                 truthy (parseIfTruthy pf (s_latitude s)) \<and>
                 truthy (parseIfTruthy pf (s_longitude s))"
  have "\<exists>ulat ulng. v \<in> vendorEntry M pf ulat ulng (offerings d) ` set (filter ?keep (sellers d))"
  proof (cases "truthy (parseIfTruthy pf (q_lat q)) \<and> truthy (parseIfTruthy pf (q_lng q))")
    case True
    then have "set vs \<subseteq> vendorEntry M pf (parseIfTruthy pf (q_lat q)) (parseIfTruthy pf (q_lng q))
                 (offerings d) ` set (filter ?keep (sellers d))"
      using assms(1) by (auto simp: getActive_with_origin)
    with assms(2) show ?thesis by blast
  next
    case False
    then have "set vs = vendorEntry M pf None None (offerings d) ` set (filter ?keep (sellers d))"
      using assms(1) by (auto simp: getActive_no_origin)
    with assms(2) show ?thesis by blast
  qed
  then obtain ulat ulng s where "s \<in> set (filter ?keep (sellers d))"
    and "v = vendorEntry M pf ulat ulng (offerings d) s" by blast
  then show ?thesis by auto
qed

text \<open>
  C9. A vendor whose stored latitude or longitude is exactly 0 is left out of the
  result of every discovery query, whatever its active flag, its timestamp and the
  query's origin and radius: no entry of the result carries its id. The ids of the
  table are distinct, \<open>id\<close> being its primary key.
\<close>

theorem zero_coordinate_vendor_excluded:
  assumes "s \<in> set (sellers d)" and "distinct (map s_id (sellers d))"
    and "s_latitude s = Some la" and "s_longitude s = Some lo"
    and "pf la = Num 0 \<or> pf lo = Num 0"
    and "getActive M pf now q d = Inr vs"
  shows "s_id s \<notin> v_id ` set vs"
proof
  assume "s_id s \<in> v_id ` set vs"
  then obtain v where v: "v \<in> set vs" "v_id v = s_id s" by auto
  with assms(6) obtain s' where s': "s' \<in> set (sellers d)" "v_id v = s_id s'"
    "truthy (parseIfTruthy pf (s_latitude s'))" "truthy (parseIfTruthy pf (s_longitude s'))"
    using getActive_entries [of M pf now q d vs v] by auto
  have "\<not> (truthy (parseIfTruthy pf (s_latitude s)) \<and> truthy (parseIfTruthy pf (s_longitude s)))"
    using assms(3,4,5) by auto
  with s' have "s' \<noteq> s" by auto
  with s'(1) assms(1,2) have "s_id s' \<noteq> s_id s"
    by (meson distinct_map inj_on_def)
  with s'(2) v(2) show False by simp
qed

theorem zero_coordinate_vendor_excluded_witness:
  "sampleSeller 1 True (Some ''0.0000000'') (Some ''-75.0000000'') (Some 1000000)
     \<in> set [sampleSeller 1 True (Some ''0.0000000'') (Some ''-75.0000000'') (Some 1000000),
            sampleSeller 2 True (Some ''40.0000000'') (Some ''-75.0000000'') (Some 1000000)]
   \<and> sampleParseFloat ''0.0000000'' = Num 0
   \<and> getActive sampleArith sampleParseFloat 1000000
       \<lparr> q_lat = Some ''40'', q_lng = Some ''-75'', q_radius = None \<rparr>
       \<lparr> sellers = [sampleSeller 1 True (Some ''0.0000000'') (Some ''-75.0000000'') (Some 1000000),
                    sampleSeller 2 True (Some ''40.0000000'') (Some ''-75.0000000'') (Some 1000000)],
         offerings = [] \<rparr>
     = Inr [vendorEntry sampleArith sampleParseFloat (Some (Num 40)) (Some (Num (- 75))) []
              (sampleSeller 2 True (Some ''40.0000000'') (Some ''-75.0000000'') (Some 1000000))]
   \<and> 1 \<notin> v_id ` set [vendorEntry sampleArith sampleParseFloat (Some (Num 40)) (Some (Num (- 75))) []
              (sampleSeller 2 True (Some ''40.0000000'') (Some ''-75.0000000'') (Some 1000000))]"
proof -
  let ?s1 = "sampleSeller 1 True (Some ''0.0000000'') (Some ''-75.0000000'') (Some 1000000)"
  let ?s2 = "sampleSeller 2 True (Some ''40.0000000'') (Some ''-75.0000000'') (Some 1000000)"
  let ?d = "\<lparr> sellers = [?s1, ?s2], offerings = [] \<rparr>"
  let ?q = "\<lparr> q_lat = Some ''40'', q_lng = Some ''-75'', q_radius = None \<rparr>"
  let ?vs = "[vendorEntry sampleArith sampleParseFloat (Some (Num 40)) (Some (Num (- 75))) [] ?s2]"
  have run: "getActive sampleArith sampleParseFloat 1000000 ?q ?d = Inr ?vs"
    by (simp add: getActive_def vendorEntry_def sampleParseFloat_def sampleSeller_def
        staleThreshold_def STALE_THRESHOLD_MINUTES_def Let_def sample_distance_self)
  have mem: "?s1 \<in> set (sellers ?d)" by simp
  have ids: "distinct (map s_id (sellers ?d))" by (simp add: sampleSeller_def)
  have la: "s_latitude ?s1 = Some ''0.0000000''" and lo: "s_longitude ?s1 = Some ''-75.0000000''"
    by (simp_all add: sampleSeller_def)
  have zero: "sampleParseFloat ''0.0000000'' = Num 0 \<or> sampleParseFloat ''-75.0000000'' = Num 0"
    by (simp add: sampleParseFloat_def)
  from zero_coordinate_vendor_excluded [OF mem ids la lo zero run]
  have "s_id ?s1 \<notin> v_id ` set ?vs" .
  then have "1 \<notin> v_id ` set ?vs" by (simp add: sampleSeller_def)
  with run show ?thesis by (simp add: sampleParseFloat_def)
qed


text \<open>
  C10. When the supplied origin has latitude 0 or longitude 0, the query answers as
  the query without an origin does, whatever the radius: the selected vendors in table
  order, each with distance 0, with no radius filter and no sorting.
\<close>

theorem zero_origin_as_no_origin:
  assumes "q_lat q = Some la" and "q_lng q = Some lo" and "pf la = Num 0 \<or> pf lo = Num 0"
  shows "getActive M pf now q d = getActive M pf now \<lparr> q_lat = None, q_lng = None, q_radius = r \<rparr> d
       \<and> getActive M pf now q d =
           Inr (map (vendorEntry M pf None None (offerings d))
                  (filter (\<lambda>s. s_isActive s \<and> gte (s_lastLocationUpdate s) (staleThreshold now) \<and>
                               truthy (parseIfTruthy pf (s_latitude s)) \<and>
                               truthy (parseIfTruthy pf (s_longitude s)))
                     (sellers d)))
       \<and> v_distance (vendorEntry M pf None None (offerings d) s) = Num 0"
proof -
  have falsy: "\<not> (truthy (parseIfTruthy pf (q_lat q)) \<and> truthy (parseIfTruthy pf (q_lng q)))"
    using assms by auto
  have none: "\<not> (truthy (parseIfTruthy pf (q_lat \<lparr> q_lat = None, q_lng = None, q_radius = r \<rparr>)) \<and>
                  truthy (parseIfTruthy pf (q_lng \<lparr> q_lat = None, q_lng = None, q_radius = r \<rparr>)))"
    by simp
  have "v_distance (vendorEntry M pf None None (offerings d) s) = Num 0"
    by (simp add: vendorEntry_distance)
  then show ?thesis
    by (simp add: getActive_no_origin [OF falsy] getActive_no_origin [OF none])
qed

theorem zero_origin_as_no_origin_witness:
  "sampleParseFloat ''0'' = Num 0
   \<and> getActive sampleArith sampleParseFloat 1000000
       \<lparr> q_lat = Some ''0'', q_lng = Some ''1'', q_radius = Some ''10'' \<rparr>
       \<lparr> sellers = [sampleSeller 1 True (Some ''90.0000000'') (Some ''1.0000000'') (Some 1000000)],
         offerings = [] \<rparr>
     = getActive sampleArith sampleParseFloat 1000000
       \<lparr> q_lat = None, q_lng = None, q_radius = None \<rparr>
       \<lparr> sellers = [sampleSeller 1 True (Some ''90.0000000'') (Some ''1.0000000'') (Some 1000000)],
         offerings = [] \<rparr>
   \<and> v_distance (vendorEntry sampleArith sampleParseFloat None None []
        (sampleSeller 1 True (Some ''90.0000000'') (Some ''1.0000000'') (Some 1000000))) = Num 0"
proof -
  let ?q = "\<lparr> q_lat = Some ''0'', q_lng = Some ''1'', q_radius = Some ''10'' \<rparr>"
  let ?s = "sampleSeller 1 True (Some ''90.0000000'') (Some ''1.0000000'') (Some 1000000)"
  let ?d = "\<lparr> sellers = [?s], offerings = [] \<rparr>"
  have la: "q_lat ?q = Some ''0''" and lo: "q_lng ?q = Some ''1''" by simp_all
  have zero: "sampleParseFloat ''0'' = Num 0 \<or> sampleParseFloat ''1'' = Num 0"
    by (simp add: sampleParseFloat_def)
  have pz: "sampleParseFloat ''0'' = Num 0"
    by (simp add: sampleParseFloat_def)
  from zero_origin_as_no_origin [OF la lo zero, of sampleArith 1000000 ?d None ?s] pz
  show ?thesis by simp
qed

text \<open>
  C3 at a failing input. The query \<open>lat=0&lng=1\<close> with the default radius of 50
  miles returns a vendor at the north pole with distance 0: the origin is dropped
  because its latitude 0 is falsy. The distance the code computes from (0, 1) to
  (90, 1) is 6218.78 miles, which fails the radius test; it is a quarter of a great
  circle, \<open>3959 * pi / 2\<close> miles without rounding.
\<close>

theorem zero_origin_query_returns_distant_vendor:
  "getActive sampleArith sampleParseFloat 1000000
     \<lparr> q_lat = Some ''0'', q_lng = Some ''1'', q_radius = None \<rparr>
     \<lparr> sellers = [sampleSeller 1 True (Some ''90.0000000'') (Some ''1.0000000'') (Some 1000000)],
       offerings = [] \<rparr>
   = Inr [\<lparr> v_id = 1, v_sellerId = 1, v_latitude = Some (Num 90), v_longitude = Some (Num 1),
             v_timestamp = Some 1000000,
             v_seller = \<lparr> i_businessName = ''Cone Zone'', i_ownerName = ''Ada'',
                          i_phone = ''555-0100'', i_description = None, i_offerings = [] \<rparr>,
             v_distance = Num 0 \<rparr>]
   \<and> calculateDistance sampleArith (Num 0) (Num 1) (Num 90) (Num 1)
       = Num (3418811921420971 / 549755813888)
   \<and> \<not> le_number (calculateDistance sampleArith (Num 0) (Num 1) (Num 90) (Num 1))
                  (sampleParseFloat ''50'')
   \<and> calculateDistance exactArith (Num 0) (Num 1) (Num 90) (Num 1) = Num (3959 * pi / 2)
   \<and> 50 < 3959 * pi / 2"
proof (intro conjI)
  show "50 < 3959 * pi / 2"
    using pi_ge_two by simp
  show "\<not> le_number (calculateDistance sampleArith (Num 0) (Num 1) (Num 90) (Num 1))
                  (sampleParseFloat ''50'')"
    by (simp add: sample_distance_equator_to_pole sampleParseFloat_def)
qed (simp_all add: sample_distance_equator_to_pole calculateDistance_exact_equator_to_pole
       getActive_def vendorEntry_def sampleParseFloat_def sampleSeller_def
       staleThreshold_def STALE_THRESHOLD_MINUTES_def Let_def)

text \<open>
  C4 at a failing input. With no origin, an active vendor whose location was written
  this instant at latitude 0, longitude 10 is missing from the result: its latitude 0
  is falsy, so the coordinate filter drops it.
\<close>

theorem zero_latitude_vendor_missing_without_origin:
  "getActive sampleArith sampleParseFloat 1000000 \<lparr> q_lat = None, q_lng = None, q_radius = None \<rparr>
     \<lparr> sellers = [sampleSeller 1 True (Some ''0.0000000'') (Some ''10.0000000'') (Some 1000000)],
       offerings = [] \<rparr>
   = Inr []"
  by (simp add: getActive_def vendorEntry_def sampleParseFloat_def sampleSeller_def
       staleThreshold_def STALE_THRESHOLD_MINUTES_def Let_def)

section \<open>Location update: errors and writes\<close>

lemma take_1_filter:
  "take (Suc 0) (filter p xs) = (case List.find p xs of None \<Rightarrow> [] | Some x \<Rightarrow> [x])"
  by (induction xs) auto

lemma find_in_set: "List.find p xs = Some x \<Longrightarrow> x \<in> set xs \<and> p x"
  by (induction xs) (auto split: if_splits)

lemma updateSellers_ids:
  "updateSellers P upd sid rows = Some rows' \<Longrightarrow> map s_id rows' = map s_id rows"
  by (auto simp: updateSellers_def split: option.splits)

text \<open>The row read back after the update is there: the update keeps every id.\<close>

lemma reselect_nonempty:
  assumes "updateSellers P upd sid rows = Some rows'" and "r \<in> set rows" and "s_id r = sid"
  shows "List.find (\<lambda>s. s_id s = sid) rows' \<noteq> None"
proof -
  have "sid \<in> set (map s_id rows')"
    using assms updateSellers_ids [OF assms(1)] by force
  then show ?thesis
    by (auto simp: find_None_iff)
qed

lemma patchLocationHandler_ok:
  assumes "List.find (\<lambda>s. s_userId s = uid) (sellers d) = Some seller"
    and "locationUpdateData P now body = Some upd"
    and "updateSellers P upd (s_id seller) (sellers d) = Some rows"
  shows "\<exists>r. patchLocationHandler P now uid body d = (Inr r, d \<lparr> sellers := rows \<rparr>)"
proof -
  note found = find_in_set [OF assms(1)]
  from reselect_nonempty [OF assms(3), of seller] found
  obtain u where "List.find (\<lambda>s. s_id s = s_id seller) rows = Some u" by auto
  with assms show ?thesis
    by (simp add: patchLocationHandler_def take_1_filter Let_def)
qed

lemma patchLocationHandler_cases:
  "(\<exists>c m. patchLocationHandler P now uid body d = (Inl (HttpError c m), d) \<and> (c = 404 \<or> c = 500))
   \<or> (\<exists>r d'. patchLocationHandler P now uid body d = (Inr r, d'))"
proof (cases "List.find (\<lambda>s. s_userId s = uid) (sellers d)")
  case None
  then show ?thesis
    by (simp add: patchLocationHandler_def take_1_filter)
next
  case (Some seller)
  show ?thesis
  proof (cases "locationUpdateData P now body")
    case None
    with Some show ?thesis
      by (simp add: patchLocationHandler_def take_1_filter locationFailed_def)
  next
    case upd: (Some upd)
    show ?thesis
    proof (cases "updateSellers P upd (s_id seller) (sellers d)")
      case None
      with Some upd show ?thesis
        by (simp add: patchLocationHandler_def take_1_filter locationFailed_def)
    next
      case rows: (Some rows)
      from patchLocationHandler_ok [OF Some upd rows] show ?thesis by blast
    qed
  qed
qed

lemma authMiddleware_status:
  "authMiddleware P h = Inl (HttpError c m) \<Longrightarrow> c = 401"
  by (auto simp: authMiddleware_def split: option.splits if_splits)

lemma patchLocation_seller:
  "authMiddleware P h = Inr (uid, ''seller'') \<Longrightarrow>
   patchLocation P now h body d = patchLocationHandler P now uid body d"
  by (simp add: patchLocation_def sellerOnly_def)

text \<open>Every error answer is 401, 403, 404 or 500, and leaves the tables as they were.\<close>

lemma patchLocation_error:
  assumes "fst (patchLocation P now h body d) = Inl (HttpError c m)"
  shows "(c = 401 \<or> c = 403 \<or> c = 404 \<or> c = 500) \<and> snd (patchLocation P now h body d) = d"
proof (cases "authMiddleware P h")
  case (Inl e)
  with assms authMiddleware_status [of P h c m] show ?thesis
    by (simp add: patchLocation_def)
next
  case (Inr ut)
  obtain uid utype where ut: "ut = (uid, utype)" by (cases ut)
  show ?thesis
  proof (cases "utype = ''seller''")
    case False
    with Inr ut assms show ?thesis
      by (auto simp: patchLocation_def sellerOnly_def)
  next
    case True
    with Inr ut have eq: "patchLocation P now h body d = patchLocationHandler P now uid body d"
      by (simp add: patchLocation_seller)
    from patchLocationHandler_cases [of P now uid body d] assms show ?thesis
      unfolding eq by auto
  qed
qed

lemma locationUpdateData_location:
  assumes "b_latitude body = Some vla" and "toString P vla = Some sla"
    and "b_longitude body = Some vlo" and "toString P vlo = Some slo"
    and "b_isActive body \<noteq> Some False"
  shows "locationUpdateData P now body =
           Some \<lparr> u_updatedAt = now, u_latitude = Assign (Some sla), u_longitude = Assign (Some slo),
                  u_lastLocationUpdate = Assign (Some now),
                  u_isActive = (case b_isActive body of None \<Rightarrow> Keep | Some a \<Rightarrow> Assign a) \<rparr>"
  using assms by (auto simp: locationUpdateData_def Let_def split: option.splits)

text \<open>The write of a location: what the route stores when nothing fails.\<close>

lemma patchLocation_stores:
  assumes "authMiddleware P h = Inr (uid, ''seller'')"
    and "List.find (\<lambda>s. s_userId s = uid) (sellers d) = Some seller"
    and "b_latitude body = Some vla" and "toString P vla = Some sla" and "numericIn P sla = Some la"
    and "b_longitude body = Some vlo" and "toString P vlo = Some slo" and "numericIn P slo = Some lo"
    and "b_isActive body \<noteq> Some False"
  shows "\<exists>r. patchLocation P now h body d =
           (Inr r, d \<lparr> sellers :=
              map (\<lambda>x. if s_id x = s_id seller
                        then x \<lparr> s_updatedAt := now, s_latitude := Some la, s_longitude := Some lo,
                                s_lastLocationUpdate := Some now,
                                s_isActive := (case b_isActive body of None \<Rightarrow> s_isActive x
                                               | Some a \<Rightarrow> a) \<rparr>
                        else x) (sellers d) \<rparr>)"
proof -
  let ?upd = "\<lparr> u_updatedAt = now, u_latitude = Assign (Some sla), u_longitude = Assign (Some slo),
                u_lastLocationUpdate = Assign (Some now),
                u_isActive = (case b_isActive body of None \<Rightarrow> Keep | Some a \<Rightarrow> Assign a) \<rparr>"
  let ?rows = "map (\<lambda>x. if s_id x = s_id seller
                        then x \<lparr> s_updatedAt := now, s_latitude := Some la, s_longitude := Some lo,
                                s_lastLocationUpdate := Some now,
                                s_isActive := (case b_isActive body of None \<Rightarrow> s_isActive x
                                               | Some a \<Rightarrow> a) \<rparr>
                        else x) (sellers d)"
  have upd: "locationUpdateData P now body = Some ?upd"
    using assms(3,4,6,7,9) by (rule locationUpdateData_location)
  have rows: "updateSellers P ?upd (s_id seller) (sellers d) = Some ?rows"
    using assms(5,8) by (auto simp: updateSellers_def split: option.splits)
  from patchLocationHandler_ok [OF assms(2) upd rows] patchLocation_seller [OF assms(1)]
  show ?thesis by simp
qed


text \<open>
  C8. On \<open>PATCH /location\<close>, which carries both SetLocation and SetActive: a caller
  whose role is not \<open>seller\<close> gets 403 (PermissionDenied), and a seller for whom no
  vendor record exists gets 404 (NotFound); in both cases the tables are returned
  unchanged. The role is checked before the record is looked up.
\<close>

theorem patchLocation_forbidden_and_not_found:
  "(authMiddleware P h = Inr (uid, userType) \<and> userType \<noteq> ''seller'' \<longrightarrow>
      patchLocation P now h body d = (Inl (HttpError 403 ''Seller access required''), d))
   \<and> (authMiddleware P h = Inr (uid, ''seller'') \<and> uid \<notin> s_userId ` set (sellers d) \<longrightarrow>
      patchLocation P now h body d = (Inl (HttpError 404 ''Seller profile not found''), d))"
proof (intro conjI impI)
  assume "authMiddleware P h = Inr (uid, userType) \<and> userType \<noteq> ''seller''"
  then show "patchLocation P now h body d = (Inl (HttpError 403 ''Seller access required''), d)"
    by (simp add: patchLocation_def sellerOnly_def)
next
  assume a: "authMiddleware P h = Inr (uid, ''seller'') \<and> uid \<notin> s_userId ` set (sellers d)"
  then have "filter (\<lambda>s. s_userId s = uid) (sellers d) = []"
    by (auto simp: filter_empty_conv)
  with a show "patchLocation P now h body d = (Inl (HttpError 404 ''Seller profile not found''), d)"
    by (simp add: patchLocation_seller patchLocationHandler_def)
qed

theorem patchLocation_forbidden_and_not_found_witness:
  "authMiddleware samplePlatform (Some ''Bearer searcher-7'') = Inr (7, ''searcher'')
   \<and> patchLocation samplePlatform 1000000 (Some ''Bearer searcher-7'')
       \<lparr> b_latitude = Some (JNum 40), b_longitude = Some (JNum (- 75)), b_isActive = Some True \<rparr>
       \<lparr> sellers = [sampleSeller 1 True None None None], offerings = [] \<rparr>
     = (Inl (HttpError 403 ''Seller access required''),
        \<lparr> sellers = [sampleSeller 1 True None None None], offerings = [] \<rparr>)
   \<and> authMiddleware samplePlatform (Some ''Bearer seller-999'') = Inr (999, ''seller'')
   \<and> patchLocation samplePlatform 1000000 (Some ''Bearer seller-999'')
       \<lparr> b_latitude = Some (JNum 40), b_longitude = Some (JNum (- 75)), b_isActive = Some True \<rparr>
       \<lparr> sellers = [sampleSeller 1 True None None None], offerings = [] \<rparr>
     = (Inl (HttpError 404 ''Seller profile not found''),
        \<lparr> sellers = [sampleSeller 1 True None None None], offerings = [] \<rparr>)"
proof -
  let ?b = "\<lparr> b_latitude = Some (JNum 40), b_longitude = Some (JNum (- 75)), b_isActive = Some True \<rparr>"
  let ?d = "\<lparr> sellers = [sampleSeller 1 True None None None], offerings = [] \<rparr>"
  have a1: "authMiddleware samplePlatform (Some ''Bearer searcher-7'') = Inr (7, ''searcher'')"
    by (simp add: authMiddleware_def verifyToken_def samplePlatform_def sampleJwtVerify_def)
  have a2: "authMiddleware samplePlatform (Some ''Bearer seller-999'') = Inr (999, ''seller'')"
    by (simp add: authMiddleware_def verifyToken_def samplePlatform_def sampleJwtVerify_def)
  have n1: "''searcher'' \<noteq> ''seller''" by simp
  have n2: "999 \<notin> s_userId ` set (sellers ?d)" by (simp add: sampleSeller_def)
  from patchLocation_forbidden_and_not_found
         [of samplePlatform "Some ''Bearer searcher-7''" 7 "''searcher''" 1000000 ?b ?d] a1 n1
  have r1: "patchLocation samplePlatform 1000000 (Some ''Bearer searcher-7'') ?b ?d
              = (Inl (HttpError 403 ''Seller access required''), ?d)"
    by blast
  from patchLocation_forbidden_and_not_found
         [of samplePlatform "Some ''Bearer seller-999''" 999 "''seller''" 1000000 ?b ?d] a2 n2
  have r2: "patchLocation samplePlatform 1000000 (Some ''Bearer seller-999'') ?b ?d
              = (Inl (HttpError 404 ''Seller profile not found''), ?d)"
    by blast
  from a1 a2 r1 r2 show ?thesis by blast
qed

text \<open>
  C6, as the code has it. A bare SetLocation (latitude and longitude, no
  \<open>isActive\<close>) by a vendor whose active flag is false is neither rejected nor joined
  to a reactivation: when the column accepts the coordinate texts the call succeeds,
  the vendor's row holds the coordinates with \<open>lastLocationUpdate = now\<close>, and its
  active flag is still false.
\<close>

theorem setLocation_on_inactive_vendor_stores:
  assumes "authMiddleware P h = Inr (uid, ''seller'')"
    and "List.find (\<lambda>s. s_userId s = uid) (sellers d) = Some seller"
    and "\<not> s_isActive seller"
    and "body = \<lparr> b_latitude = Some vla, b_longitude = Some vlo, b_isActive = None \<rparr>"
    and "toString P vla = Some sla" and "numericIn P sla = Some la"
    and "toString P vlo = Some slo" and "numericIn P slo = Some lo"
  shows "(\<exists>r. patchLocation P now h body d =
           (Inr r, d \<lparr> sellers :=
              map (\<lambda>x. if s_id x = s_id seller
                        then x \<lparr> s_updatedAt := now, s_latitude := Some la, s_longitude := Some lo,
                                s_lastLocationUpdate := Some now \<rparr>
                        else x) (sellers d) \<rparr>))
       \<and> seller \<lparr> s_updatedAt := now, s_latitude := Some la, s_longitude := Some lo,
                  s_lastLocationUpdate := Some now \<rparr>
           \<in> set (sellers (snd (patchLocation P now h body d)))
       \<and> \<not> s_isActive (seller \<lparr> s_updatedAt := now, s_latitude := Some la, s_longitude := Some lo,
                                 s_lastLocationUpdate := Some now \<rparr>)"
proof -
  have b: "b_latitude body = Some vla" "b_longitude body = Some vlo" "b_isActive body \<noteq> Some False"
    and n: "b_isActive body = None"
    using assms(4) by simp_all
  from patchLocation_stores [OF assms(1,2) b(1) assms(5,6) b(2) assms(7,8) b(3), of now]
  obtain r where r: "patchLocation P now h body d =
           (Inr r, d \<lparr> sellers :=
              map (\<lambda>x. if s_id x = s_id seller
                        then x \<lparr> s_updatedAt := now, s_latitude := Some la, s_longitude := Some lo,
                                s_lastLocationUpdate := Some now \<rparr>
                        else x) (sellers d) \<rparr>)"
    unfolding n by auto
  have "seller \<in> set (sellers d)"
    using find_in_set [OF assms(2)] by simp
  then have "seller \<lparr> s_updatedAt := now, s_latitude := Some la, s_longitude := Some lo,
                  s_lastLocationUpdate := Some now \<rparr>
           \<in> set (sellers (snd (patchLocation P now h body d)))"
    unfolding r by force
  with r assms(3) show ?thesis by simp
qed


lemma sample_seller_auth:
  "authMiddleware samplePlatform (Some ''Bearer seller-101'') = Inr (101, ''seller'')"
  by (simp add: authMiddleware_def verifyToken_def samplePlatform_def sampleJwtVerify_def)

theorem setLocation_on_inactive_vendor_stores_witness:
  "authMiddleware samplePlatform (Some ''Bearer seller-101'') = Inr (101, ''seller'')
   \<and> \<not> s_isActive (sampleSeller 1 False None None None)
   \<and> (sampleSeller 1 False None None None)
        \<lparr> s_updatedAt := 1000000, s_latitude := Some ''40.0000000'',
          s_longitude := Some ''-75.0000000'', s_lastLocationUpdate := Some 1000000 \<rparr>
       \<in> set (sellers (snd (patchLocation samplePlatform 1000000 (Some ''Bearer seller-101'')
             \<lparr> b_latitude = Some (JNum 40), b_longitude = Some (JNum (- 75)), b_isActive = None \<rparr>
             \<lparr> sellers = [sampleSeller 1 False None None None], offerings = [] \<rparr>)))"
proof -
  let ?s = "sampleSeller 1 False None None None"
  let ?d = "\<lparr> sellers = [?s], offerings = [] \<rparr>"
  have found: "List.find (\<lambda>s. s_userId s = 101) (sellers ?d) = Some ?s"
    by (simp add: sampleSeller_def)
  have inactive: "\<not> s_isActive ?s"
    by (simp add: sampleSeller_def)
  have la: "toString samplePlatform (JNum 40) = Some ''40''"
    and la': "numericIn samplePlatform ''40'' = Some ''40.0000000''"
    and lo: "toString samplePlatform (JNum (- 75)) = Some ''-75''"
    and lo': "numericIn samplePlatform ''-75'' = Some ''-75.0000000''"
    by (simp_all add: samplePlatform_def sampleNumberToString_def sampleNumericIn_def)
  from setLocation_on_inactive_vendor_stores
         [OF sample_seller_auth found inactive refl la la' lo lo', of 1000000]
       sample_seller_auth inactive
  show ?thesis by blast
qed

text \<open>
  C6 as stated fails: vendor 1 is inactive and has no location; its bare SetLocation
  to (40, -75) succeeds, and afterwards its row holds the coordinates while
  \<open>isActive\<close> is still false.
\<close>

theorem setLocation_on_inactive_vendor_counterexample:
  "patchLocation samplePlatform 1000000 (Some ''Bearer seller-101'')
     \<lparr> b_latitude = Some (JNum 40), b_longitude = Some (JNum (- 75)), b_isActive = None \<rparr>
     \<lparr> sellers = [sampleSeller 1 False None None None], offerings = [] \<rparr>
   = (Inr \<lparr> r_isActive = False, r_latitude = Some (Num 40), r_longitude = Some (Num (- 75)),
            r_lastLocationUpdate = Some 1000000 \<rparr>,
      \<lparr> sellers = [(sampleSeller 1 False (Some ''40.0000000'') (Some ''-75.0000000'')
                      (Some 1000000)) \<lparr> s_updatedAt := 1000000 \<rparr>],
        offerings = [] \<rparr>)"
  unfolding patchLocation_seller [OF sample_seller_auth]
  by (simp add: patchLocationHandler_def
       locationUpdateData_def updateSellers_def samplePlatform_def sampleNumberToString_def
       sampleNumericIn_def sampleParseFloat_def sampleSeller_def Let_def)

text \<open>
  C5, as the code has it. The location update validates nothing and has no
  InvalidArgument answer: every error it gives is 401, 403, 404 or 500 and leaves the
  tables unchanged, and coordinates of any magnitude are stored, as the column's input
  function renders them, whenever that function accepts their text (and the request
  does not deactivate the vendor).
\<close>

theorem patchLocation_no_coordinate_validation:
  "(fst (patchLocation P now h body d) = Inl (HttpError c m) \<longrightarrow>
      (c = 401 \<or> c = 403 \<or> c = 404 \<or> c = 500) \<and> snd (patchLocation P now h body d) = d)
   \<and> (authMiddleware P h = Inr (uid, ''seller'') \<and>
       List.find (\<lambda>s. s_userId s = uid) (sellers d) = Some seller \<and>
       b_latitude body = Some vla \<and> toString P vla = Some sla \<and> numericIn P sla = Some la \<and>
       b_longitude body = Some vlo \<and> toString P vlo = Some slo \<and> numericIn P slo = Some lo \<and>
       b_isActive body \<noteq> Some False \<longrightarrow>
       (\<exists>r. patchLocation P now h body d =
           (Inr r, d \<lparr> sellers :=
              map (\<lambda>x. if s_id x = s_id seller
                        then x \<lparr> s_updatedAt := now, s_latitude := Some la, s_longitude := Some lo,
                                s_lastLocationUpdate := Some now,
                                s_isActive := (case b_isActive body of None \<Rightarrow> s_isActive x
                                               | Some a \<Rightarrow> a) \<rparr>
                        else x) (sellers d) \<rparr>)))"
  using patchLocation_error [of P now h body d c m]
    patchLocation_stores [of P h uid d seller body vla sla la vlo slo lo now]
  by blast

theorem patchLocation_no_coordinate_validation_witness:
  "fst (patchLocation samplePlatform 1000000 (Some ''Bearer seller-101'')
          \<lparr> b_latitude = Some (JStr ''north''), b_longitude = Some (JNum 200), b_isActive = None \<rparr>
          \<lparr> sellers = [sampleSeller 1 True None None None], offerings = [] \<rparr>)
     = Inl (HttpError 500 ''Failed to update location'')
   \<and> snd (patchLocation samplePlatform 1000000 (Some ''Bearer seller-101'')
          \<lparr> b_latitude = Some (JStr ''north''), b_longitude = Some (JNum 200), b_isActive = None \<rparr>
          \<lparr> sellers = [sampleSeller 1 True None None None], offerings = [] \<rparr>)
     = \<lparr> sellers = [sampleSeller 1 True None None None], offerings = [] \<rparr>
   \<and> numericIn samplePlatform ''95'' = Some ''95.0000000''
   \<and> numericIn samplePlatform ''200'' = Some ''200.0000000''
   \<and> snd (patchLocation samplePlatform 1000000 (Some ''Bearer seller-101'')
          \<lparr> b_latitude = Some (JNum 95), b_longitude = Some (JNum 200), b_isActive = None \<rparr>
          \<lparr> sellers = [sampleSeller 1 True None None None], offerings = [] \<rparr>)
     = \<lparr> sellers = [(sampleSeller 1 True (Some ''95.0000000'') (Some ''200.0000000'')
                       (Some 1000000)) \<lparr> s_updatedAt := 1000000 \<rparr>],
         offerings = [] \<rparr>"
proof -
  let ?h = "Some ''Bearer seller-101''"
  let ?s = "sampleSeller 1 True None None None"
  let ?d = "\<lparr> sellers = [?s], offerings = [] \<rparr>"
  let ?bad = "\<lparr> b_latitude = Some (JStr ''north''), b_longitude = Some (JNum 200), b_isActive = None \<rparr>"
  let ?b = "\<lparr> b_latitude = Some (JNum 95), b_longitude = Some (JNum 200), b_isActive = None \<rparr>"
  have failed: "fst (patchLocation samplePlatform 1000000 ?h ?bad ?d)
                  = Inl (HttpError 500 ''Failed to update location'')"
    unfolding patchLocation_seller [OF sample_seller_auth]
  by (simp add: patchLocationHandler_def
         locationUpdateData_def updateSellers_def samplePlatform_def sampleNumberToString_def
         sampleNumericIn_def sampleSeller_def locationFailed_def Let_def)
  have found: "List.find (\<lambda>s. s_userId s = 101) (sellers ?d) = Some ?s"
    by (simp add: sampleSeller_def)
  have la: "toString samplePlatform (JNum 95) = Some ''95''"
    and la': "numericIn samplePlatform ''95'' = Some ''95.0000000''"
    and lo: "toString samplePlatform (JNum 200) = Some ''200''"
    and lo': "numericIn samplePlatform ''200'' = Some ''200.0000000''"
    by (simp_all add: samplePlatform_def sampleNumberToString_def sampleNumericIn_def)
  have body: "b_latitude ?b = Some (JNum 95)" "b_longitude ?b = Some (JNum 200)"
    "b_isActive ?b \<noteq> Some False"
    by simp_all
  note thm1 = patchLocation_no_coordinate_validation
    [of samplePlatform 1000000 ?h ?bad ?d 500 "''Failed to update location''"]
  note thm2 = patchLocation_no_coordinate_validation
    [of samplePlatform 1000000 ?h ?b ?d _ _ 101 ?s "JNum 95" "''95''" "''95.0000000''"
        "JNum 200" "''200''" "''200.0000000''"]
  from thm1 failed have unchanged: "snd (patchLocation samplePlatform 1000000 ?h ?bad ?d) = ?d"
    by blast
  from thm2 sample_seller_auth found la la' lo lo' body
  obtain r where "patchLocation samplePlatform 1000000 ?h ?b ?d =
      (Inr r, ?d \<lparr> sellers :=
         map (\<lambda>x. if s_id x = s_id ?s
                   then x \<lparr> s_updatedAt := 1000000, s_latitude := Some ''95.0000000'',
                           s_longitude := Some ''200.0000000'',
                           s_lastLocationUpdate := Some 1000000,
                           s_isActive := (case b_isActive ?b of None \<Rightarrow> s_isActive x
                                          | Some a \<Rightarrow> a) \<rparr>
                   else x) (sellers ?d) \<rparr>)"
    by blast
  then have stored: "snd (patchLocation samplePlatform 1000000 ?h ?b ?d)
      = \<lparr> sellers = [(sampleSeller 1 True (Some ''95.0000000'') (Some ''200.0000000'')
                        (Some 1000000)) \<lparr> s_updatedAt := 1000000 \<rparr>],
          offerings = [] \<rparr>"
    by (simp add: sampleSeller_def)
  from failed unchanged la' lo' stored show ?thesis by blast
qed

text \<open>
  C5 as stated fails: latitude 95 and longitude 200 are out of range, yet the update
  answers 200 and stores them.
\<close>

theorem patchLocation_out_of_range_counterexample:
  "patchLocation samplePlatform 1000000 (Some ''Bearer seller-101'')
     \<lparr> b_latitude = Some (JNum 95), b_longitude = Some (JNum 200), b_isActive = None \<rparr>
     \<lparr> sellers = [sampleSeller 1 True None None None], offerings = [] \<rparr>
   = (Inr \<lparr> r_isActive = True, r_latitude = Some (Num 95), r_longitude = Some (Num 200),
            r_lastLocationUpdate = Some 1000000 \<rparr>,
      \<lparr> sellers = [(sampleSeller 1 True (Some ''95.0000000'') (Some ''200.0000000'')
                      (Some 1000000)) \<lparr> s_updatedAt := 1000000 \<rparr>],
        offerings = [] \<rparr>)"
  unfolding patchLocation_seller [OF sample_seller_auth]
  by (simp add: patchLocationHandler_def
       locationUpdateData_def updateSellers_def samplePlatform_def sampleNumberToString_def
       sampleNumericIn_def sampleParseFloat_def sampleSeller_def Let_def)


section \<open>Deactivation\<close>

lemma locationUpdateData_deactivate:
  assumes "locationUpdateData P now body = Some upd" and "b_isActive body = Some False"
  shows "upd = \<lparr> u_updatedAt = now, u_latitude = Assign None, u_longitude = Assign None,
                 u_lastLocationUpdate = Assign None, u_isActive = Assign False \<rparr>"
  using assms by (auto simp: locationUpdateData_def Let_def split: option.splits)

text \<open>
  The vendor's own deactivation through \<open>PATCH /location\<close> clears the location:
  whenever the request with \<open>isActive = false\<close> succeeds, every row of the vendor has
  no coordinates, no timestamp and the flag false, whatever it held before.
\<close>

lemma patchLocation_deactivate_clears:
  assumes "authMiddleware P h = Inr (uid, ''seller'')"
    and "List.find (\<lambda>s. s_userId s = uid) (sellers d) = Some seller"
    and "b_isActive body = Some False"
    and "fst (patchLocation P now h body d) = Inr r"
  shows "snd (patchLocation P now h body d) =
           d \<lparr> sellers :=
              map (\<lambda>x. if s_id x = s_id seller
                        then x \<lparr> s_updatedAt := now, s_latitude := None, s_longitude := None,
                                s_lastLocationUpdate := None, s_isActive := False \<rparr>
                        else x) (sellers d) \<rparr>"
proof -
  let ?rows = "map (\<lambda>x. if s_id x = s_id seller
                        then x \<lparr> s_updatedAt := now, s_latitude := None, s_longitude := None,
                                s_lastLocationUpdate := None, s_isActive := False \<rparr>
                        else x) (sellers d)"
  have eq: "patchLocation P now h body d = patchLocationHandler P now uid body d"
    using assms(1) by (rule patchLocation_seller)
  obtain upd where upd: "locationUpdateData P now body = Some upd"
    using assms(2,4) unfolding eq
    by (cases "locationUpdateData P now body")
       (auto simp: patchLocationHandler_def take_1_filter)
  note u = locationUpdateData_deactivate [OF upd assms(3)]
  have rows: "updateSellers P upd (s_id seller) (sellers d) = Some ?rows"
    unfolding u by (simp add: updateSellers_def)
  from patchLocationHandler_ok [OF assms(2) upd rows] show ?thesis
    unfolding eq by auto
qed

lemma sample_admin_auth:
  "authMiddleware samplePlatform (Some ''Bearer admin-1'') = Inr (1, ''admin'')"
  by (simp add: authMiddleware_def verifyToken_def samplePlatform_def sampleJwtVerify_def)

text \<open>
  C2 at a failing input. Vendor 1 is active at (40, -75). The administrator's
  toggle sets its active flag to false and leaves latitude, longitude and
  \<open>lastLocationUpdate\<close> in the row.
\<close>

theorem toggleActive_keeps_location:
  "toggleActive samplePlatform 2000000 (Some ''Bearer admin-1'') 1
     \<lparr> sellers = [sampleSeller 1 True (Some ''40.0000000'') (Some ''-75.0000000'') (Some 1000000)],
       offerings = [] \<rparr>
   = (Inr \<lparr> t_message = ''Vendor deactivated successfully'', t_isActive = False \<rparr>,
      \<lparr> sellers = [(sampleSeller 1 False (Some ''40.0000000'') (Some ''-75.0000000'')
                      (Some 1000000)) \<lparr> s_updatedAt := 2000000 \<rparr>],
        offerings = [] \<rparr>)"
  by (simp add: toggleActive_def sample_admin_auth adminOnly_def sampleSeller_def Let_def)

end
